theory Spec2Isabelle
  imports Complex_Main "HOL-Library.Char_ord" "HOL-Library.List_Lexorder"
begin

section \<open>JavaScript numbers\<close>

text \<open>
  A JavaScript number is modelled as a real number or one of the three special values
  of IEEE 754. Arithmetic on finite values is exact: rounding, overflow to an infinity
  and the sign of zero are not modelled (a zero divisor counts as \<open>+0\<close>). What
  is modelled is every way a special value is produced from finite ones or propagates:
  division by zero, \<open>0/0\<close>, the square root of a negative number, and the
  arithmetic of \<open>NaN\<close> and the infinities.
\<close>

datatype jsnum = Num real | PInf | NInf | NaN

fun jneg :: "jsnum \<Rightarrow> jsnum" where
  "jneg (Num a) = Num (- a)"
| "jneg PInf = NInf"
| "jneg NInf = PInf"
| "jneg NaN = NaN"

fun jadd :: "jsnum \<Rightarrow> jsnum \<Rightarrow> jsnum" where
  "jadd (Num a) (Num b) = Num (a + b)"
| "jadd NaN _ = NaN"
| "jadd _ NaN = NaN"
| "jadd PInf NInf = NaN"
| "jadd NInf PInf = NaN"
| "jadd PInf _ = PInf"
| "jadd _ PInf = PInf"
| "jadd NInf _ = NInf"
| "jadd _ NInf = NInf"

definition jsub :: "jsnum \<Rightarrow> jsnum \<Rightarrow> jsnum" where
  "jsub a b = jadd a (jneg b)"

text \<open>The sign of a number that is not \<open>NaN\<close>; zero counts as positive.\<close>

fun negative :: "jsnum \<Rightarrow> bool" where
  "negative (Num a) = (a < 0)"
| "negative NInf = True"
| "negative _ = False"

fun jmul :: "jsnum \<Rightarrow> jsnum \<Rightarrow> jsnum" where
  "jmul (Num a) (Num b) = Num (a * b)"
| "jmul NaN _ = NaN"
| "jmul _ NaN = NaN"
| "jmul (Num a) y = (if a = 0 then NaN else if negative (Num a) = negative y then PInf else NInf)"
| "jmul x (Num b) = (if b = 0 then NaN else if negative x = negative (Num b) then PInf else NInf)"
| "jmul x y = (if negative x = negative y then PInf else NInf)"

fun jdiv :: "jsnum \<Rightarrow> jsnum \<Rightarrow> jsnum" where
  "jdiv (Num a) (Num b) =
     (if b = 0 then (if a = 0 then NaN else if a < 0 then NInf else PInf)
      else Num (a / b))"
| "jdiv NaN _ = NaN"
| "jdiv _ NaN = NaN"
| "jdiv (Num a) _ = Num 0"
| "jdiv x (Num b) = (if negative x = negative (Num b) then PInf else NInf)"
| "jdiv _ _ = NaN"

text \<open>\<open>Math.sqrt\<close>.\<close>

fun jsqrt :: "jsnum \<Rightarrow> jsnum" where
  "jsqrt (Num a) = (if a < 0 then NaN else Num (sqrt a))"
| "jsqrt PInf = PInf"
| "jsqrt _ = NaN"

text \<open>\<open>Math.pow(x, 2)\<close> and \<open>x ** 2\<close>: the square, \<open>NaN\<close> for \<open>NaN\<close>
  and \<open>+Infinity\<close> for either infinity.\<close>

definition jpow2 :: "jsnum \<Rightarrow> jsnum" where
  "jpow2 x = jmul x x"

text \<open>The comparisons \<open>===\<close>, \<open>>\<close> and \<open>>=\<close> on numbers: every comparison with
  \<open>NaN\<close> is false.\<close>

fun jeq :: "jsnum \<Rightarrow> jsnum \<Rightarrow> bool" where
  "jeq NaN _ = False"
| "jeq _ NaN = False"
| "jeq x y = (x = y)"

fun jgt :: "jsnum \<Rightarrow> jsnum \<Rightarrow> bool" where
  "jgt (Num a) (Num b) = (a > b)"
| "jgt NaN _ = False"
| "jgt _ NaN = False"
| "jgt PInf y = (y \<noteq> PInf)"
| "jgt x NInf = (x \<noteq> NInf)"
| "jgt _ _ = False"

definition jge :: "jsnum \<Rightarrow> jsnum \<Rightarrow> bool" where
  "jge x y = (jgt x y \<or> jeq x y)"

fun isNaN :: "jsnum \<Rightarrow> bool" where
  "isNaN NaN = True"
| "isNaN _ = False"

fun isFinite :: "jsnum \<Rightarrow> bool" where
  "isFinite (Num _) = True"
| "isFinite _ = False"

text \<open>Reading \<open>xs[i]\<close> as a number: an index past the end gives \<open>undefined\<close>,
  which arithmetic turns into \<open>NaN\<close>.\<close>

definition numAt :: "jsnum list \<Rightarrow> nat \<Rightarrow> jsnum" where
  "numAt xs i = (if i < length xs then xs ! i else NaN)"

section \<open>Portfolio analytics of \<open>setupPortfolioAnalytics\<close>\<close>

text \<open>
  The metrics are computed inline from the array \<open>portfolioReturns\<close>; each is given
  here as a function of that array, under the name of the source's variable.
  \<open>reduce((a, b) => a + b, 0)\<close> is a left fold.
\<close>

definition cumulativeReturn :: "jsnum list \<Rightarrow> jsnum" where
  "cumulativeReturn rs = fold (\<lambda>b a. jadd a b) rs (Num 0)"

definition meanReturn :: "jsnum list \<Rightarrow> jsnum" where
  "meanReturn rs = jdiv (cumulativeReturn rs) (Num (real (length rs)))"

definition variance :: "jsnum list \<Rightarrow> jsnum" where
  "variance rs =
     jdiv (fold (\<lambda>r sum. jadd sum (jpow2 (jsub r (meanReturn rs)))) rs (Num 0))
          (Num (real (length rs)))"

definition dailyVol :: "jsnum list \<Rightarrow> jsnum" where
  "dailyVol rs = jsqrt (variance rs)"

definition volatility :: "jsnum list \<Rightarrow> jsnum" where
  "volatility rs = jmul (jmul (dailyVol rs) (jsqrt (Num 252))) (Num 100)"

definition sharpeRatio :: "jsnum list \<Rightarrow> jsnum" where
  "sharpeRatio rs =
     (if jeq (volatility rs) (Num 0) then Num 0
      else jdiv (jmul (meanReturn rs) (Num 252)) (jdiv (volatility rs) (Num 100)))"

text \<open>The drawdown loop, with its three variables \<open>cum\<close>, \<open>peak\<close> and \<open>maxDD\<close>.\<close>

fun ddStep :: "jsnum \<Rightarrow> jsnum \<times> jsnum \<times> jsnum \<Rightarrow> jsnum \<times> jsnum \<times> jsnum" where
  "ddStep r (cum, peak, maxDD) =
     (let cum' = jadd cum r;
          peak' = (if jgt cum' peak then cum' else peak);
          drawdown = jsub peak' cum';
          maxDD' = (if jgt drawdown maxDD then drawdown else maxDD)
      in (cum', peak', maxDD'))"

definition maxDrawdown :: "jsnum list \<Rightarrow> jsnum" where
  "maxDrawdown rs =
     (case fold ddStep rs (Num 0, Num 0, Num 0) of (cum, peak, maxDD) \<Rightarrow> jmul maxDD (Num 100))"

text \<open>
  \<open>[...portfolioReturns].sort((a, b) => a - b)\<close>. On finite numbers the comparator is
  consistent and every sorting algorithm returns the same ascending array; it is given
  here as an insertion sort driven by the comparator. (A comparator result of
  \<open>NaN\<close> counts as \<open>0\<close>; for arrays holding \<open>NaN\<close> the order is left to the engine
  by the language standard, and nothing is stated about them below.)
\<close>

definition cmpAsc :: "jsnum \<Rightarrow> jsnum \<Rightarrow> jsnum" where
  "cmpAsc a b = jsub a b"

fun sortInsert :: "jsnum \<Rightarrow> jsnum list \<Rightarrow> jsnum list" where
  "sortInsert x [] = [x]"
| "sortInsert x (y # ys) =
     (if jgt (cmpAsc x y) (Num 0) then y # sortInsert x ys else x # y # ys)"

definition sortedReturns :: "jsnum list \<Rightarrow> jsnum list" where
  "sortedReturns rs = foldr sortInsert rs []"

text \<open>\<open>Math.floor(sortedReturns.length * p)\<close> for the two levels \<open>0.05\<close> and \<open>0.01\<close>.\<close>

definition idx95 :: "jsnum list \<Rightarrow> nat" where
  "idx95 rs = nat \<lfloor>real (length (sortedReturns rs)) * 0.05\<rfloor>"

definition idx99 :: "jsnum list \<Rightarrow> nat" where
  "idx99 rs = nat \<lfloor>real (length (sortedReturns rs)) * 0.01\<rfloor>"

definition var95 :: "jsnum list \<Rightarrow> jsnum" where
  "var95 rs = jmul (jneg (numAt (sortedReturns rs) (idx95 rs))) (Num 100)"

definition var99 :: "jsnum list \<Rightarrow> jsnum" where
  "var99 rs = jmul (jneg (numAt (sortedReturns rs) (idx99 rs))) (Num 100)"

section \<open>Statistics of \<open>renderPortfolioStats\<close>\<close>

text \<open>
  A series of normalised values holds numbers and \<open>null\<close> (\<open>None\<close>).
  \<open>toReturns\<close> is the helper of \<open>renderPortfolioStats\<close>; the same loop builds
  \<open>returnsMap\<close> in \<open>renderPortfolioCorrelation\<close>.
\<close>

fun toReturns :: "jsnum option list \<Rightarrow> jsnum list" where
  "toReturns (Some p # Some c # vs) = jdiv (jsub c p) p # toReturns (Some c # vs)"
| "toReturns (_ # c # vs) = toReturns (c # vs)"
| "toReturns _ = []"

text \<open>The statistics computed from \<open>portfolioReturns\<close>, each under the name of the
  source's variable (\<open>variance\<close> and \<open>volatility\<close> carry the prefix \<open>stats\<close>).\<close>

definition meanDaily :: "jsnum list \<Rightarrow> jsnum" where
  "meanDaily rs =
     (if length rs > 0 then jdiv (fold (\<lambda>r m. jadd m r) rs (Num 0)) (Num (real (length rs)))
      else Num 0)"

definition statsVariance :: "jsnum list \<Rightarrow> jsnum" where
  "statsVariance rs =
     (if length rs > 0
      then jdiv (fold (\<lambda>r v. jadd v (jpow2 (jsub r (meanDaily rs)))) rs (Num 0))
                (Num (real (length rs)))
      else Num 0)"

definition statsVolatility :: "jsnum list \<Rightarrow> jsnum" where
  "statsVolatility rs = jsqrt (statsVariance rs)"

definition annualisedReturn :: "jsnum list \<Rightarrow> jsnum" where
  "annualisedReturn rs = jmul (meanDaily rs) (Num 252)"

definition annualisedVol :: "jsnum list \<Rightarrow> jsnum" where
  "annualisedVol rs = jmul (statsVolatility rs) (jsqrt (Num 252))"

definition sharpe :: "jsnum list \<Rightarrow> jsnum" where
  "sharpe rs =
     (if \<not> jeq (annualisedVol rs) (Num 0) then jdiv (annualisedReturn rs) (annualisedVol rs)
      else Num 0)"

section \<open>Pearson correlation\<close>

text \<open>
  \<open>corr(a, b)\<close> of \<open>renderPortfolioCorrelation\<close>. Both loops run over the indices
  below \<open>n = Math.min(a.length, b.length)\<close> and read \<open>a[i]\<close> and \<open>b[i]\<close>: a
  traversal of \<open>zip a b\<close>.
\<close>

definition corrMeans :: "jsnum list \<Rightarrow> jsnum list \<Rightarrow> jsnum \<times> jsnum" where
  "corrMeans a b =
     (case fold (\<lambda>(x, y) (meanA, meanB). (jadd meanA x, jadd meanB y)) (zip a b) (Num 0, Num 0)
      of (meanA, meanB) \<Rightarrow>
        (jdiv meanA (Num (real (min (length a) (length b)))),
         jdiv meanB (Num (real (min (length a) (length b))))))"

text \<open>One round of the second loop, for the pair \<open>(a[i], b[i])\<close>.\<close>

fun corrStep :: "jsnum \<Rightarrow> jsnum \<Rightarrow> jsnum \<times> jsnum \<Rightarrow> jsnum \<times> jsnum \<times> jsnum \<Rightarrow> jsnum \<times> jsnum \<times> jsnum" where
  "corrStep meanA meanB (x, y) (cov, varA, varB) =
     (let da = jsub x meanA; db = jsub y meanB
      in (jadd cov (jmul da db), jadd varA (jmul da da), jadd varB (jmul db db)))"

definition corrSums :: "jsnum list \<Rightarrow> jsnum list \<Rightarrow> jsnum \<times> jsnum \<times> jsnum" where
  "corrSums a b =
     (case corrMeans a b of (meanA, meanB) \<Rightarrow>
        fold (corrStep meanA meanB) (zip a b) (Num 0, Num 0, Num 0))"

definition corr :: "jsnum list \<Rightarrow> jsnum list \<Rightarrow> jsnum" where
  "corr a b =
     (if min (length a) (length b) = 0 then Num 0
      else case corrSums a b of (cov, varA, varB) \<Rightarrow>
        (let denom = jsqrt (jmul varA varB)
         in if jeq denom (Num 0) then Num 0 else jdiv cov denom))"

text \<open>The matrix \<open>tickers.map(rowKey => tickers.map(colKey => corr(...)))\<close> over the
  return series of the tickers, in the order of the tickers.\<close>

definition corrMatrix :: "jsnum list list \<Rightarrow> jsnum list list" where
  "corrMatrix returns = map (\<lambda>row. map (\<lambda>col. corr row col) returns) returns"

text \<open>\<open>renderPortfolioCorrelation\<close> up to the matrix: nothing is computed for fewer than
  two tickers. The datasets are listed by ticker.\<close>

definition renderPortfolioCorrelation :: "(string \<times> jsnum option list) list \<Rightarrow> jsnum list list option" where
  "renderPortfolioCorrelation datasets =
     (if length datasets < 2 then None
      else Some (corrMatrix (map (\<lambda>(key, vals). toReturns vals) datasets)))"

text \<open>
  \<open>correlationMatrix(data)\<close> of \<open>setupPortfolioAnalytics\<close>. The row length is taken
  from \<open>data[0]\<close>, which throws on an empty \<open>data\<close> (\<open>None\<close>); a read past the end
  of a shorter row gives \<open>undefined\<close>.
\<close>

definition cmMean :: "nat \<Rightarrow> jsnum list \<Rightarrow> jsnum" where
  "cmMean n arr = jdiv (fold (\<lambda>b a. jadd a b) arr (Num 0)) (Num (real n))"

definition cmStd :: "nat \<Rightarrow> jsnum list \<Rightarrow> jsnum" where
  "cmStd n arr =
     jsqrt (jdiv (fold (\<lambda>x sum. jadd sum (jpow2 (jsub x (cmMean n arr)))) arr (Num 0))
                 (Num (real n)))"

definition cmCov :: "nat \<Rightarrow> jsnum list \<Rightarrow> jsnum list \<Rightarrow> jsnum" where
  "cmCov n ri rj =
     jdiv (fold (\<lambda>k cov. jadd cov (jmul (jsub (numAt ri k) (cmMean n ri))
                                         (jsub (numAt rj k) (cmMean n rj))))
                [0..<n] (Num 0))
          (Num (real n))"

definition correlationMatrix :: "jsnum list list \<Rightarrow> jsnum list list option" where
  "correlationMatrix data =
     (case data of
        [] \<Rightarrow> None
      | row0 # _ \<Rightarrow>
          (let n = length row0
           in Some (map (\<lambda>ri. map (\<lambda>rj. jdiv (cmCov n ri rj) (jmul (cmStd n ri) (cmStd n rj)))
                                   data)
                        data)))"

section \<open>Rebasing a series to 100\<close>

text \<open>\<open>values.findIndex(p)\<close>: the first index whose element satisfies \<open>p\<close>, or \<open>-1\<close>.\<close>

fun findIndex :: "('a \<Rightarrow> bool) \<Rightarrow> 'a list \<Rightarrow> int" where
  "findIndex p [] = - 1"
| "findIndex p (x # xs) =
     (if p x then 0 else (let i = findIndex p xs in if i < 0 then - 1 else i + 1))"

text \<open>A value that may be \<open>null\<close>, used as a number: \<open>null\<close> converts to \<open>0\<close>.\<close>

fun toNum :: "jsnum option \<Rightarrow> jsnum" where
  "toNum None = Num 0"
| "toNum (Some v) = v"

text \<open>\<open>normalize(values)\<close> of \<open>renderStockOverview\<close>.\<close>

definition normalize :: "jsnum option list \<Rightarrow> jsnum option list" where
  "normalize vals =
     (let baseIndex = findIndex (\<lambda>v. v \<noteq> None) vals;
          base = (if baseIndex \<ge> 0 then toNum (vals ! nat baseIndex) else Num 1)
      in map (\<lambda>v. case v of Some x \<Rightarrow> Some (jmul (jdiv x base) (Num 100)) | None \<Rightarrow> None) vals)"

text \<open>The rebasing of \<open>renderCryptoOverview\<close>: \<open>values.map(v => (v / values[0]) * 100)\<close>.\<close>

definition rebaseFirst :: "jsnum list \<Rightarrow> jsnum list" where
  "rebaseFirst vals = map (\<lambda>v. jmul (jdiv v (numAt vals 0)) (Num 100)) vals"

section \<open>Where the return series come from\<close>








section \<open>Real-valued counterparts used in the proofs\<close>

text \<open>The two means that \<open>corr\<close> computes over the overlap of two finite series.\<close>

definition pairMeans :: "real list \<Rightarrow> real list \<Rightarrow> real \<times> real" where
  "pairMeans xs ys =
     ((\<Sum>(x, y)\<leftarrow>zip xs ys. x) / real (min (length xs) (length ys)),
      (\<Sum>(x, y)\<leftarrow>zip xs ys. y) / real (min (length xs) (length ys)))"

section \<open>JavaScript values\<close>

text \<open>
  The values that \<open>JSON.parse\<close> produces, and \<open>undefined\<close>. An object lists its own
  properties in order; a well-formed object has distinct keys, and a read takes the
  first entry of a key.
\<close>

datatype jsval =
    JUndefined
  | JNull
  | JBool bool
  | JNum jsnum
  | JStr string
  | JArr "jsval list"
  | JObj "(string \<times> jsval) list"

fun truthy :: "jsval \<Rightarrow> bool" where
  "truthy JUndefined = False"
| "truthy JNull = False"
| "truthy (JBool b) = b"
| "truthy (JNum n) = (n \<noteq> Num 0 \<and> n \<noteq> NaN)"
| "truthy (JStr s) = (s \<noteq> [])"
| "truthy (JArr _) = True"
| "truthy (JObj _) = True"

fun nullish :: "jsval \<Rightarrow> bool" where
  "nullish JUndefined = True"
| "nullish JNull = True"
| "nullish _ = False"

text \<open>The decimal numeral of a natural number, as in an array index key or in
  \<open>`Day ${i + 1}`\<close>.\<close>

fun showNat :: "nat \<Rightarrow> string" where
  "showNat n =
     (if n < 10 then [char_of (48 + n)]
      else showNat (n div 10) @ [char_of (48 + n mod 10)])"

text \<open>
  The own enumerable properties of a value (\<open>Object.entries\<close>): the entries of an
  object, the elements of an array and the characters of a string under their indices.
\<close>

fun ownEntries :: "jsval \<Rightarrow> (string \<times> jsval) list" where
  "ownEntries (JObj ps) = ps"
| "ownEntries (JArr xs) = zip (map showNat [0..<length xs]) xs"
| "ownEntries (JStr s) = zip (map showNat [0..<length s]) (map (\<lambda>c. JStr [c]) s)"
| "ownEntries _ = []"

text \<open>
  The read \<open>v[k]\<close> of a value that is neither \<open>null\<close> nor \<open>undefined\<close>; a missing
  property reads as \<open>undefined\<close>. Inherited members are not modelled: of the names
  that the code below reads, none is inherited, except \<open>values\<close> on an array in
  \<open>fetchTwelveSeries\<close>, which is treated there. \<open>getp\<close> is the read that throws
  a \<open>TypeError\<close> (\<open>None\<close>) on \<open>null\<close> and \<open>undefined\<close>.
\<close>

definition field :: "jsval \<Rightarrow> string \<Rightarrow> jsval" where
  "field v k = (case map_of (ownEntries v) k of Some x \<Rightarrow> x | None \<Rightarrow> JUndefined)"

definition getp :: "jsval \<Rightarrow> string \<Rightarrow> jsval option" where
  "getp v k = (if nullish v then None else Some (field v k))"

text \<open>\<open>xs.map(f)\<close> for a callback that may throw: the first throw ends the loop.\<close>

primrec mapOpt :: "('a \<Rightarrow> 'b option) \<Rightarrow> 'a list \<Rightarrow> 'b list option" where
  "mapOpt f [] = Some []"
| "mapOpt f (x # xs) =
     (case f x of None \<Rightarrow> None
      | Some y \<Rightarrow> (case mapOpt f xs of None \<Rightarrow> None | Some ys \<Rightarrow> Some (y # ys)))"

section \<open>What the engine provides\<close>

text \<open>
  Built-ins whose definition is the language standard's and the browser's, not this
  program's, are parameters of the model: the parsing of a string by \<open>parseFloat\<close>
  and by \<open>Number\<close>, \<open>Date.prototype.toISOString\<close> of a time in milliseconds, and
  the order in which \<open>Array.prototype.sort\<close> leaves an array under the comparator of
  \<open>fetchOilPriceSeries\<close> (which never answers \<open>0\<close>, so the standard leaves the
  order to the engine when periods repeat).
\<close>

record engine =
  strFloat :: "string \<Rightarrow> jsnum"
  strNumber :: "string \<Rightarrow> jsnum"
  toISOString :: "real \<Rightarrow> string"
  sortByPeriod :: "jsval list \<Rightarrow> jsval list"

text \<open>
  \<open>parseFloat(v)\<close> parses the string of \<open>v\<close>. A number reads back as itself; the
  string of an array starts with the string of its first element, followed by a comma
  at most; \<open>null\<close>, \<open>undefined\<close>, booleans and objects give no number.
\<close>

fun parseFloat :: "engine \<Rightarrow> jsval \<Rightarrow> jsnum" where
  "parseFloat E (JNum n) = n"
| "parseFloat E (JStr s) = strFloat E s"
| "parseFloat E (JArr (x # xs)) = parseFloat E x"
| "parseFloat E _ = NaN"

text \<open>\<open>Number(v)\<close>. The string of a one-element array is the string of its element
  (empty for \<open>null\<close>); the empty string converts to \<open>0\<close>, a string with a comma to
  \<open>NaN\<close>.\<close>

fun toNumber :: "engine \<Rightarrow> jsval \<Rightarrow> jsnum" where
  "toNumber E (JNum n) = n"
| "toNumber E JNull = Num 0"
| "toNumber E JUndefined = NaN"
| "toNumber E (JBool b) = Num (if b then 1 else 0)"
| "toNumber E (JStr s) = strNumber E s"
| "toNumber E (JArr []) = Num 0"
| "toNumber E (JArr [x]) =
     (case x of JNull \<Rightarrow> Num 0 | JUndefined \<Rightarrow> Num 0 | JBool b \<Rightarrow> NaN | _ \<Rightarrow> toNumber E x)"
| "toNumber E (JArr (x # y # zs)) = NaN"
| "toNumber E (JObj ps) = NaN"

text \<open>The object \<open>{ labels, values }\<close>.\<close>

definition seriesObj :: "jsval list \<Rightarrow> jsnum list \<Rightarrow> jsval" where
  "seriesObj ls vs = JObj [(''labels'', JArr ls), (''values'', JArr (map JNum vs))]"

section \<open>The cache in \<open>localStorage\<close>\<close>

text \<open>
  A stored text is either the JSON text of a value or some other text (which
  \<open>JSON.parse\<close> rejects; the empty string is one). \<open>jsonText\<close> is \<open>JSON.stringify\<close>
  followed by the reading of the text: a number that is not finite becomes \<open>null\<close>,
  a property holding \<open>undefined\<close> is dropped, and \<open>undefined\<close> in an array
  becomes \<open>null\<close>.
\<close>

datatype item = JsonText jsval | OtherText string

fun jsonText :: "jsval \<Rightarrow> jsval" where
  "jsonText (JNum n) = (if isFinite n then JNum n else JNull)"
| "jsonText (JArr xs) = JArr (map (\<lambda>x. if x = JUndefined then JNull else jsonText x) xs)"
| "jsonText (JObj ps) =
     JObj (map (\<lambda>p. (fst p, jsonText (snd p))) (filter (\<lambda>p. snd p \<noteq> JUndefined) ps))"
| "jsonText v = v"

text \<open>
  The store fails in two ways: it can be disabled altogether, so that every access
  throws, and it can refuse a write (the quota).
\<close>

record storage =
  enabled :: bool
  accepts :: "string \<Rightarrow> item \<Rightarrow> bool"
  items :: "string \<rightharpoonup> item"

definition cacheKey :: "string \<Rightarrow> string" where
  "cacheKey key = ''investHubCache:'' @ key"

text \<open>\<open>saveToCache(key, data)\<close> at the time \<open>now\<close> of \<open>Date.now()\<close>.\<close>

definition saveToCache :: "storage \<Rightarrow> real \<Rightarrow> string \<Rightarrow> jsval \<Rightarrow> storage" where
  "saveToCache st now key data =
     (let payload = JObj [(''timestamp'', JNum (Num now)), (''data'', data)];
          text = JsonText (jsonText payload)
      in if enabled st \<and> accepts st (cacheKey key) text
         then st\<lparr>items := (items st)(cacheKey key \<mapsto> text)\<rparr>
         else st)"

text \<open>\<open>loadFromCache(key)\<close>; \<open>null\<close> is \<open>JNull\<close>.\<close>

definition loadFromCache :: "storage \<Rightarrow> string \<Rightarrow> jsval" where
  "loadFromCache st key =
     (if \<not> enabled st then JNull
      else case items st (cacheKey key) of
             None \<Rightarrow> JNull
           | Some (OtherText s) \<Rightarrow> JNull
           | Some (JsonText parsed) \<Rightarrow>
               (case getp parsed ''data'' of None \<Rightarrow> JNull | Some d \<Rightarrow> d))"

text \<open>A payload that JSON represents as it is: no \<open>undefined\<close> and no number that is
  not finite anywhere in it.\<close>

fun serializable :: "jsval \<Rightarrow> bool" where
  "serializable JUndefined = False"
| "serializable (JNum n) = isFinite n"
| "serializable (JArr xs) = (\<forall>x \<in> set xs. serializable x)"
| "serializable (JObj ps) = (\<forall>p \<in> set ps. serializable (snd p))"
| "serializable _ = True"

section \<open>The network and the world\<close>

text \<open>
  A request names the endpoint and what the URL carries besides the API key. The network
  is a function from requests to the parsed JSON body, \<open>None\<close> when \<open>fetch\<close> or
  \<open>res.json()\<close> rejects. The world holds the store and the log of requests made.
\<close>

datatype request =
    AlpacaBars string
  | AlphaVantageDaily string
  | TwelveDataSeries string
  | EiaOilPrice string string

record world =
  store :: storage
  requests :: "request list"

definition httpGet :: "(request \<Rightarrow> jsval option) \<Rightarrow> request \<Rightarrow> world \<Rightarrow> jsval option \<times> world" where
  "httpGet net r w = (net r, w\<lparr>requests := requests w @ [r]\<rparr>)"

section \<open>\<open>fetchEquitySeries\<close>\<close>

text \<open>\<open>sample()\<close>: thirty points on a trend with a sine wave.\<close>

definition sample :: "string \<Rightarrow> jsval" where
  "sample symbol =
     (let base = (if symbol = ''TSLA'' then 250 else 450)
      in seriesObj (map (\<lambda>i. JStr (''Day '' @ showNat (i + 1))) [0..<30])
                   (map (\<lambda>i. Num (base + sin (real i / 5) * 8 + real i * 0.5)) [0..<30]))"

text \<open>The label of a bar: \<open>bar.t || bar.timestamp || bar.start || ''\<close>, cut to ten
  characters. \<open>None\<close> is a throw: the bar is \<open>null\<close>, or the time stamp is truthy
  and not a string, so that it has no \<open>substring\<close>.\<close>

definition barLabel :: "jsval \<Rightarrow> jsval option" where
  "barLabel bar =
     (if nullish bar then None
      else let ts = (if truthy (field bar ''t'') then field bar ''t''
                     else if truthy (field bar ''timestamp'') then field bar ''timestamp''
                     else if truthy (field bar ''start'') then field bar ''start''
                     else JStr '''')
           in if truthy ts
              then (case ts of JStr s \<Rightarrow> Some (JStr (take 10 s)) | _ \<Rightarrow> None)
              else Some (JStr ''''))"

text \<open>The close of a bar: \<open>bar.c ?? bar.close\<close>, parsed unless it is a number.\<close>

definition barClose :: "engine \<Rightarrow> jsval \<Rightarrow> jsnum option" where
  "barClose E bar =
     (if nullish bar then None
      else let c = (if nullish (field bar ''c'') then field bar ''close'' else field bar ''c'')
           in Some (case c of JNum n \<Rightarrow> n | _ \<Rightarrow> parseFloat E c))"

text \<open>\<open>json.bars || (json.data && json.data.bars) || []\<close>.\<close>

definition alpacaBars :: "jsval \<Rightarrow> jsval option" where
  "alpacaBars json =
     (if nullish json then None
      else if truthy (field json ''bars'') then Some (field json ''bars'')
      else if truthy (field json ''data'') \<and> truthy (field (field json ''data'') ''bars'')
           then Some (field (field json ''data'') ''bars'')
      else Some (JArr []))"

text \<open>The body of the \<open>try\<close> of \<open>fetchFromAlpaca\<close> after the response has arrived;
  \<open>None\<close> is a throw.\<close>

definition alpacaSeries :: "engine \<Rightarrow> jsval \<Rightarrow> jsval option" where
  "alpacaSeries E json =
     (case alpacaBars json of
        Some (JArr bars) \<Rightarrow>
          (if bars = [] then None
           else case mapOpt barLabel bars of
                  None \<Rightarrow> None
                | Some ls \<Rightarrow>
                    (case mapOpt (barClose E) bars of
                       None \<Rightarrow> None
                     | Some vs \<Rightarrow>
                         if list_all (\<lambda>v. \<not> isNaN v) vs then Some (seriesObj ls vs) else None))
      | _ \<Rightarrow> None)"

text \<open>\<open>fetchFromAlpaca()\<close>; \<open>None\<close> is its result \<open>null\<close>.\<close>

definition fetchFromAlpaca :: "engine \<Rightarrow> (request \<Rightarrow> jsval option) \<Rightarrow> string \<Rightarrow> world \<Rightarrow> jsval option \<times> world" where
  "fetchFromAlpaca E net symbol w =
     (case httpGet net (AlpacaBars symbol) w of
        (None, w') \<Rightarrow> (None, w')
      | (Some json, w') \<Rightarrow> (alpacaSeries E json, w'))"

text \<open>\<open>Object.keys(series).sort().slice(-30)\<close>.\<close>

definition lastDates :: "jsval \<Rightarrow> string list" where
  "lastDates series =
     (let ks = sort (map fst (ownEntries series)) in drop (length ks - 30) ks)"

text \<open>The body of the \<open>try\<close> for AlphaVantage after the response has arrived.\<close>

definition alphaVantageSeries :: "engine \<Rightarrow> jsval \<Rightarrow> jsval option" where
  "alphaVantageSeries E json =
     (if nullish json then None
      else let series = field json ''Time Series (Daily)''
           in if \<not> truthy series then None
              else case mapOpt (\<lambda>date. if nullish (field series date) then None
                                         else Some (parseFloat E (field (field series date) ''4. close'')))
                               (lastDates series) of
                     None \<Rightarrow> None
                   | Some vs \<Rightarrow>
                       if list_all (\<lambda>v. \<not> isNaN v) vs
                       then Some (seriesObj (map JStr (lastDates series)) vs)
                       else None)"

text \<open>\<open>fetchEquitySeries(symbol)\<close>. The function does not touch the store.\<close>

definition fetchEquitySeries :: "engine \<Rightarrow> (request \<Rightarrow> jsval option) \<Rightarrow> string \<Rightarrow> world \<Rightarrow> jsval \<times> world" where
  "fetchEquitySeries E net symbol w =
     (case fetchFromAlpaca E net symbol w of
        (Some alpacaData, w1) \<Rightarrow> (alpacaData, w1)
      | (None, w1) \<Rightarrow>
          (case httpGet net (AlphaVantageDaily symbol) w1 of
             (None, w2) \<Rightarrow> (sample symbol, w2)
           | (Some json, w2) \<Rightarrow>
               (case alphaVantageSeries E json of
                  Some s \<Rightarrow> (s, w2)
                | None \<Rightarrow> (sample symbol, w2))))"

section \<open>\<open>fetchTwelveSeries\<close>\<close>

text \<open>
  The body of the \<open>try\<close> after the response has arrived; \<open>None\<close> stands for a throw
  and for falling through, which both end in \<open>return null\<close>. On an array, \<open>json.values\<close>
  is the inherited method, and calling \<open>.map\<close> on it throws.
\<close>

definition twelveSeries :: "engine \<Rightarrow> jsval \<Rightarrow> jsval option" where
  "twelveSeries E json =
     (if \<not> truthy json then None
      else case json of
             JArr _ \<Rightarrow> None
           | _ \<Rightarrow>
             (case field json ''values'' of
                JArr vals \<Rightarrow>
                  (case mapOpt (\<lambda>item. getp item ''datetime'') vals of
                     None \<Rightarrow> None
                   | Some ls \<Rightarrow>
                       (case mapOpt (\<lambda>item. map_option (parseFloat E) (getp item ''close'')) vals of
                          None \<Rightarrow> None
                        | Some vs \<Rightarrow> Some (seriesObj (rev ls) (rev vs))))
              | _ \<Rightarrow> None))"

definition fetchTwelveSeries :: "engine \<Rightarrow> (request \<Rightarrow> jsval option) \<Rightarrow> string \<Rightarrow> world \<Rightarrow> jsval option \<times> world" where
  "fetchTwelveSeries E net symbol w =
     (case httpGet net (TwelveDataSeries symbol) w of
        (None, w') \<Rightarrow> (None, w')
      | (Some json, w') \<Rightarrow> (twelveSeries E json, w'))"

section \<open>\<open>fetchOilPriceSeries\<close>\<close>

text \<open>
  \<open>fallback()\<close>: 365 daily points ending today. \<open>rnd k\<close> is the result of the
  \<open>k\<close>-th call of \<open>Math.random()\<close>; the loop counts \<open>i\<close> down from 364.
\<close>

definition dayMs :: real where
  "dayMs = 24 * 3600 * 1000"

definition fallback :: "engine \<Rightarrow> (nat \<Rightarrow> real) \<Rightarrow> real \<Rightarrow> jsval" where
  "fallback E rnd now =
     seriesObj
       (map (\<lambda>k. JStr (take 10 (toISOString E (now - real (364 - k) * dayMs)))) [0..<365])
       (map (\<lambda>k. Num (60 + (365 - real (364 - k)) * 0.02 + (rnd k - 0.5) * 2)) [0..<365])"

text \<open>\<open>json?.response?.data\<close>.\<close>

definition oilData :: "jsval \<Rightarrow> jsval" where
  "oilData json =
     (if nullish json then JUndefined
      else if nullish (field json ''response'') then JUndefined
      else field (field json ''response'') ''data'')"

text \<open>
  The body of the \<open>try\<close> after the response has arrived, up to the two arrays. Only a
  non-empty array passes the test and has a \<open>sort\<close>; an element that is \<open>null\<close>
  makes the comparator or the loop throw.
\<close>

definition oilSeries :: "engine \<Rightarrow> jsval \<Rightarrow> jsval option" where
  "oilSeries E json =
     (case oilData json of
        JArr series \<Rightarrow>
          (if series = [] \<or> list_ex nullish series then None
           else case mapOpt (\<lambda>item. if nullish item then None
                                      else Some (field item ''period'', toNumber E (field item ''value'')))
                            (sortByPeriod E series) of
                  None \<Rightarrow> None
                | Some pvs \<Rightarrow> Some (seriesObj (map fst pvs) (map snd pvs)))
      | _ \<Rightarrow> None)"

text \<open>The request, with the start date a year before \<open>now\<close> and the end date.\<close>

definition oilRequest :: "engine \<Rightarrow> real \<Rightarrow> request" where
  "oilRequest E now =
     EiaOilPrice (take 10 (toISOString E (now - 365 * dayMs))) (take 10 (toISOString E now))"

text \<open>\<open>fetchOilPriceSeries()\<close> at the time \<open>now\<close>.\<close>

definition fetchOilPriceSeries :: "engine \<Rightarrow> (request \<Rightarrow> jsval option) \<Rightarrow> (nat \<Rightarrow> real) \<Rightarrow> real \<Rightarrow> world \<Rightarrow> jsval \<times> world" where
  "fetchOilPriceSeries E net rnd now w =
     (case httpGet net (oilRequest E now) w of
        (resp, w1) \<Rightarrow>
          (case (case resp of None \<Rightarrow> None | Some json \<Rightarrow> oilSeries E json) of
             Some s \<Rightarrow> (s, w1\<lparr>store := saveToCache (store w1) now ''oilPriceSeries'' s\<rparr>)
           | None \<Rightarrow>
               (let cached = loadFromCache (store w1) ''oilPriceSeries''
                in (if truthy cached then cached else fallback E rnd now, w1))))"

section \<open>Example inputs\<close>

text \<open>
  The closed examples below run on this engine. Their inputs hold numbers rather than
  numeric strings and periods already in order, so that no parameter of the engine
  decides an outcome.
\<close>

definition exampleEngine :: engine where
  "exampleEngine =
     \<lparr>strFloat = (\<lambda>s. NaN), strNumber = (\<lambda>s. NaN),
      toISOString = (\<lambda>t. ''2024-01-01T00:00:00.000Z''), sortByPeriod = (\<lambda>xs. xs)\<rparr>"

definition emptyWorld :: world where
  "emptyWorld =
     \<lparr>store = \<lparr>enabled = True, accepts = (\<lambda>k t. True), items = Map.empty\<rparr>, requests = []\<rparr>"

text \<open>A world whose cache holds a series under the key \<open>equity:XYZ\<close>.\<close>

definition cachedWorld :: world where
  "cachedWorld =
     emptyWorld\<lparr>store := saveToCache (store emptyWorld) 0 ''equity:XYZ''
                               (seriesObj [JStr ''2024-01-02''] [Num 101])\<rparr>"

definition alpacaExample :: jsval where
  "alpacaExample =
     JObj [(''bars'', JArr [JObj [(''t'', JStr ''2024-01-02T05:00:00Z''), (''c'', JNum (Num 472.5))],
                            JObj [(''t'', JStr ''2024-01-03T05:00:00Z''), (''c'', JNum (Num 468))]])]"

definition alphaExample :: jsval where
  "alphaExample =
     JObj [(''Time Series (Daily)'',
            JObj [(''2024-01-02'', JObj [(''4. close'', JNum (Num 472.5))])])]"

definition oilExample :: jsval where
  "oilExample =
     JObj [(''response'',
            JObj [(''data'', JArr [JObj [(''period'', JStr ''2024-01-02''), (''value'', JNum (Num 71.5))]])])]"

text \<open>Responses in which one close is \<open>null\<close>.\<close>

definition nanBars :: jsval where
  "nanBars =
     JObj [(''bars'', JArr [JObj [(''t'', JStr ''2024-01-02T05:00:00Z''), (''c'', JNum (Num 472.5))],
                            JObj [(''t'', JStr ''2024-01-03T05:00:00Z''), (''c'', JNull)]])]"

definition nanDaily :: jsval where
  "nanDaily =
     JObj [(''Time Series (Daily)'',
            JObj [(''2024-01-02'', JObj [(''4. close'', JNull)])])]"

text \<open>A response of 31 dates in which the close of the oldest is \<open>null\<close>.\<close>

definition longDaily :: jsval where
  "longDaily =
     JObj [(''Time Series (Daily)'',
            JObj ((''2024-01-01'', JObj [(''4. close'', JNull)])
                  # map (\<lambda>i. (''2024-02-'' @ showNat (10 + i), JObj [(''4. close'', JNum (Num 1))]))
                        [0..<30]))]"

text \<open>Networks on which exactly one provider answers, and one on which none does.\<close>

definition alpacaOnly :: "request \<Rightarrow> jsval option" where
  "alpacaOnly r = (case r of AlpacaBars _ \<Rightarrow> Some alpacaExample | _ \<Rightarrow> None)"

definition alphaOnly :: "request \<Rightarrow> jsval option" where
  "alphaOnly r = (case r of AlphaVantageDaily _ \<Rightarrow> Some alphaExample | _ \<Rightarrow> None)"

definition oilOnly :: "request \<Rightarrow> jsval option" where
  "oilOnly r = (case r of EiaOilPrice _ _ \<Rightarrow> Some oilExample | _ \<Rightarrow> None)"

definition offline :: "request \<Rightarrow> jsval option" where
  "offline r = None"

section \<open>Finite series\<close>

lemma sortInsert_Num: "sortInsert (Num x) (map Num ys) = map Num (insort x ys)"
  by (induction ys) (auto simp: cmpAsc_def jsub_def)

lemma sortedReturns_Num: "sortedReturns (map Num xs) = map Num (sort xs)"
  by (induction xs) (simp_all add: sortedReturns_def sortInsert_Num)

section \<open>Historical Value at Risk\<close>

lemma idx95_Num: "idx95 (map Num xs) = nat \<lfloor>real (length xs) * 0.05\<rfloor>"
  by (simp add: idx95_def sortedReturns_Num)

lemma idx99_Num: "idx99 (map Num xs) = nat \<lfloor>real (length xs) * 0.01\<rfloor>"
  by (simp add: idx99_def sortedReturns_Num)

lemma idx99_le_idx95: "nat \<lfloor>real n * 0.01\<rfloor> \<le> nat \<lfloor>real n * 0.05\<rfloor>"
  by (intro nat_mono floor_mono) simp

lemma idx95_less: "0 < n \<Longrightarrow> nat \<lfloor>real n * 0.05\<rfloor> < n"
proof -
  assume "0 < n"
  then have "real n * 0.05 < real n" by simp
  then have "\<lfloor>real n * 0.05\<rfloor> < int n" by (simp add: floor_less_iff)
  moreover have "0 \<le> \<lfloor>real n * 0.05\<rfloor>" by simp
  ultimately show ?thesis by linarith
qed

lemma var95_Num:
  assumes "xs \<noteq> []"
  shows "var95 (map Num xs) = Num (- (sort xs ! nat \<lfloor>real (length xs) * 0.05\<rfloor>) * 100)"
  using assms idx95_less[of "length xs"]
  by (simp add: var95_def idx95_Num sortedReturns_Num numAt_def)

lemma var99_Num:
  assumes "xs \<noteq> []"
  shows "var99 (map Num xs) = Num (- (sort xs ! nat \<lfloor>real (length xs) * 0.01\<rfloor>) * 100)"
proof -
  have "nat \<lfloor>real (length xs) * 0.01\<rfloor> < length xs"
    using assms idx95_less[of "length xs"] idx99_le_idx95[of "length xs"] by simp
  then show ?thesis
    by (simp add: var99_def idx99_Num sortedReturns_Num numAt_def)
qed

text \<open>
  Claim C6. For a non-empty series of finite returns, the historical VaR at level \<open>p\<close>
  is the negated element at index \<open>floor(n * p)\<close> of the returns sorted ascending
  (times 100, as a percentage), and the 99% VaR is at least the 95% VaR.
\<close>

theorem historical_var_monotone:
  assumes "xs \<noteq> []"
  shows "var95 (map Num xs) = Num (- (sort xs ! nat \<lfloor>real (length xs) * 0.05\<rfloor>) * 100)
       \<and> var99 (map Num xs) = Num (- (sort xs ! nat \<lfloor>real (length xs) * 0.01\<rfloor>) * 100)
       \<and> jge (var99 (map Num xs)) (var95 (map Num xs))"
proof -
  have "sort xs ! nat \<lfloor>real (length xs) * 0.01\<rfloor> \<le> sort xs ! nat \<lfloor>real (length xs) * 0.05\<rfloor>"
    using assms idx95_less[of "length xs"] idx99_le_idx95[of "length xs"]
    by (intro sorted_nth_mono) simp_all
  then show ?thesis
    using assms by (auto simp: var95_Num var99_Num jge_def)
qed

theorem historical_var_monotone_witness:
  "var95 (map Num [3, -2, 1]) = Num 200 \<and> var99 (map Num [3, -2, 1]) = Num 200
   \<and> jge (var99 (map Num [3, -2, 1])) (var95 (map Num [3, -2, 1]))"
  using historical_var_monotone[of "[3, -2, 1]"] by (simp add: jge_def)

section \<open>Bounds on the correlation coefficient\<close>

lemma cs_step:
  fixes A B C x y :: real
  assumes "C\<^sup>2 \<le> A * B" "0 \<le> A" "0 \<le> B"
  shows "(C + x * y)\<^sup>2 \<le> (A + x\<^sup>2) * (B + y\<^sup>2)"
proof -
  have "(2 * C * x * y)\<^sup>2 = 4 * C\<^sup>2 * (x\<^sup>2 * y\<^sup>2)"
    by (simp add: power2_eq_square)
  also have "\<dots> \<le> 4 * (A * B) * (x\<^sup>2 * y\<^sup>2)"
    using assms(1) by (intro mult_right_mono mult_left_mono) simp_all
  also have "\<dots> \<le> (A * y\<^sup>2 + B * x\<^sup>2)\<^sup>2"
  proof -
    have "0 \<le> (A * y\<^sup>2 - B * x\<^sup>2)\<^sup>2" by simp
    then show ?thesis by (simp add: power2_eq_square algebra_simps)
  qed
  finally have "(2 * C * x * y)\<^sup>2 \<le> (A * y\<^sup>2 + B * x\<^sup>2)\<^sup>2" .
  moreover have "0 \<le> A * y\<^sup>2 + B * x\<^sup>2" using assms by simp
  ultimately have "2 * C * x * y \<le> A * y\<^sup>2 + B * x\<^sup>2"
    by (rule power2_le_imp_le)
  with assms(1) show ?thesis
    by (simp add: power2_eq_square algebra_simps)
qed

lemma ssq_nonneg: "0 \<le> (\<Sum>(x, y)\<leftarrow>ps. (f x y :: real)\<^sup>2)"
  by (induction ps) auto

lemma cauchy_schwarz_list:
  fixes f g :: "real \<Rightarrow> real \<Rightarrow> real"
  shows "(\<Sum>(x, y)\<leftarrow>ps. f x y * g x y)\<^sup>2 \<le> (\<Sum>(x, y)\<leftarrow>ps. (f x y)\<^sup>2) * (\<Sum>(x, y)\<leftarrow>ps. (g x y)\<^sup>2)"
proof (induction ps)
  case Nil
  then show ?case by simp
next
  case (Cons p ps)
  obtain x y where p: "p = (x, y)" by (cases p)
  have "((\<Sum>(x, y)\<leftarrow>ps. f x y * g x y) + f x y * g x y)\<^sup>2
        \<le> ((\<Sum>(x, y)\<leftarrow>ps. (f x y)\<^sup>2) + (f x y)\<^sup>2) * ((\<Sum>(x, y)\<leftarrow>ps. (g x y)\<^sup>2) + (g x y)\<^sup>2)"
    using Cons.IH ssq_nonneg[of f ps] ssq_nonneg[of g ps] by (rule cs_step)
  then show ?case by (simp add: p add.commute)
qed

lemma fold_means_Num:
  "fold (\<lambda>(x, y) (meanA, meanB). (jadd meanA x, jadd meanB y)) (map (\<lambda>(x, y). (Num x, Num y)) ps) (Num s, Num t)
   = (Num (s + (\<Sum>(x, y)\<leftarrow>ps. x)), Num (t + (\<Sum>(x, y)\<leftarrow>ps. y)))"
  by (induction ps arbitrary: s t) (auto simp: add.assoc)

lemma fold_sums_Num:
  "fold (corrStep (Num ma) (Num mb)) (map (\<lambda>(x, y). (Num x, Num y)) ps) (Num c, Num va, Num vb)
   = (Num (c + (\<Sum>(x, y)\<leftarrow>ps. (x - ma) * (y - mb))),
      Num (va + (\<Sum>(x, y)\<leftarrow>ps. (x - ma)\<^sup>2)),
      Num (vb + (\<Sum>(x, y)\<leftarrow>ps. (y - mb)\<^sup>2)))"
  by (induction ps arbitrary: c va vb) (auto simp: add.assoc jsub_def power2_eq_square Let_def)

lemma corrMeans_Num:
  assumes "xs \<noteq> []" "ys \<noteq> []"
  shows "corrMeans (map Num xs) (map Num ys)
       = (Num ((\<Sum>(x, y)\<leftarrow>zip xs ys. x) / real (min (length xs) (length ys))),
          Num ((\<Sum>(x, y)\<leftarrow>zip xs ys. y) / real (min (length xs) (length ys))))"
  using assms by (simp add: corrMeans_def zip_map_map fold_means_Num)

lemma corrSums_Num:
  assumes "xs \<noteq> []" "ys \<noteq> []" "pairMeans xs ys = (ma, mb)"
  shows "corrSums (map Num xs) (map Num ys)
       = (Num (\<Sum>(x, y)\<leftarrow>zip xs ys. (x - ma) * (y - mb)),
          Num (\<Sum>(x, y)\<leftarrow>zip xs ys. (x - ma)\<^sup>2),
          Num (\<Sum>(x, y)\<leftarrow>zip xs ys. (y - mb)\<^sup>2))"
proof -
  have "corrMeans (map Num xs) (map Num ys) = (Num ma, Num mb)"
    using assms by (simp add: corrMeans_Num pairMeans_def)
  then show ?thesis
    by (simp add: corrSums_def zip_map_map fold_sums_Num)
qed

lemma ratio_bound:
  fixes c va vb :: real
  assumes "c\<^sup>2 \<le> va * vb" "0 \<le> va" "0 \<le> vb" "sqrt (va * vb) \<noteq> 0"
  shows "\<bar>c / sqrt (va * vb)\<bar> \<le> 1"
proof -
  have "\<bar>c\<bar> \<le> sqrt (va * vb)"
    using assms(1) by (metis real_le_rsqrt abs_le_square_iff real_sqrt_abs real_sqrt_le_iff)
  moreover have "0 < sqrt (va * vb)" using assms by (simp add: less_le)
  ultimately show ?thesis by simp
qed

lemma corr_finite_bounded:
  "\<exists>r. corr (map Num xs) (map Num ys) = Num r \<and> - 1 \<le> r \<and> r \<le> 1"
proof (cases "xs = [] \<or> ys = []")
  case True
  then show ?thesis by (auto simp: corr_def)
next
  case False
  obtain ma mb where m: "pairMeans xs ys = (ma, mb)" by (cases "pairMeans xs ys")
  have s: "corrSums (map Num xs) (map Num ys)
       = (Num (\<Sum>(x, y)\<leftarrow>zip xs ys. (x - ma) * (y - mb)),
          Num (\<Sum>(x, y)\<leftarrow>zip xs ys. (x - ma)\<^sup>2),
          Num (\<Sum>(x, y)\<leftarrow>zip xs ys. (y - mb)\<^sup>2))"
    using False m by (intro corrSums_Num) simp_all
  let ?c = "\<Sum>(x, y)\<leftarrow>zip xs ys. (x - ma) * (y - mb)"
  let ?va = "\<Sum>(x, y)\<leftarrow>zip xs ys. (x - ma)\<^sup>2"
  let ?vb = "\<Sum>(x, y)\<leftarrow>zip xs ys. (y - mb)\<^sup>2"
  have cs: "?c\<^sup>2 \<le> ?va * ?vb"
    using cauchy_schwarz_list[of "\<lambda>x y. x - ma" "\<lambda>x y. y - mb" "zip xs ys"] .
  have nn: "0 \<le> ?va" "0 \<le> ?vb"
    using ssq_nonneg[of "\<lambda>x y. x - ma" "zip xs ys"] ssq_nonneg[of "\<lambda>x y. y - mb" "zip xs ys"] by auto
  have nneg: "\<not> ?va * ?vb < 0" using nn by (simp add: not_less)
  have n0: "(min (length xs) (length ys) = 0) = False" using False by (cases xs; cases ys) simp_all
  show ?thesis
  proof (cases "sqrt (?va * ?vb) = 0")
    case True
    then show ?thesis using nneg by (simp add: corr_def s n0)
  next
    case nz: False
    have "\<bar>?c / sqrt (?va * ?vb)\<bar> \<le> 1" using cs nn nz by (rule ratio_bound)
    then have "- 1 \<le> ?c / sqrt (?va * ?vb) \<and> ?c / sqrt (?va * ?vb) \<le> 1" by arith
    moreover have "corr (map Num xs) (map Num ys) = Num (?c / sqrt (?va * ?vb))"
      using nz nneg by (simp add: corr_def s n0)
    ultimately show ?thesis by blast
  qed
qed


lemma sum_zip_replicate:
  "(\<Sum>(x, y)\<leftarrow>zip (replicate n c) ys. (f x y :: real)) = (\<Sum>y\<leftarrow>take n ys. f c y)"
proof (induction n arbitrary: ys)
  case 0
  then show ?case by simp
next
  case (Suc n)
  then show ?case by (cases ys) simp_all
qed

lemma corr_constant:
  "corr (map Num (replicate n c)) (map Num ys) = Num 0"
proof (cases "n = 0 \<or> ys = []")
  case True
  then show ?thesis by (auto simp: corr_def)
next
  case False
  let ?xs = "replicate n c"
  have ne: "?xs \<noteq> []" "ys \<noteq> []" using False by auto
  have len: "min (length ?xs) (length ys) = length (take n ys)" by (simp add: min.commute)
  have pos: "length (take n ys) \<noteq> 0" using False by auto
  obtain ma mb where m: "pairMeans ?xs ys = (ma, mb)" by (cases "pairMeans ?xs ys")
  have "ma = (\<Sum>y\<leftarrow>take n ys. c) / real (length (take n ys))"
    using m unfolding pairMeans_def len by (simp add: sum_zip_replicate)
  then have ma: "ma = c" using pos by (simp add: sum_list_triv del: length_take)
  have va: "(\<Sum>(x, y)\<leftarrow>zip ?xs ys. (x - ma)\<^sup>2) = 0"
    by (simp add: sum_zip_replicate ma)
  have n0: "(min (length ?xs) (length ys) = 0) = False" using len pos by simp
  show ?thesis
    using corrSums_Num[OF ne m] by (simp add: corr_def va n0 del: map_replicate)
qed

text \<open>
  Claim C10. For finite return series the value of \<open>corr\<close> is a finite number in
  the closed interval from \<open>-1\<close> to \<open>1\<close>. The degenerate branches return \<open>0\<close>:
  an empty overlap (either series empty) and a zero denominator (shown for a constant
  series, whose variance is zero).
\<close>

theorem corr_within_unit_interval:
  "(\<exists>r. corr (map Num xs) (map Num ys) = Num r \<and> - 1 \<le> r \<and> r \<le> 1)
   \<and> corr [] b = Num 0 \<and> corr a [] = Num 0
   \<and> corr (map Num (replicate n c)) (map Num zs) = Num 0"
  using corr_finite_bounded[of xs ys] corr_constant[of n c zs] by (simp add: corr_def)

section \<open>Symmetry and diagonal of the correlation matrix\<close>

lemma jadd_commute: "jadd x y = jadd y x"
  by (cases x; cases y) simp_all













lemma fold_add_Num: "fold (\<lambda>r m. jadd m r) (map Num xs) (Num s) = Num (s + sum_list xs)"
  by (induction xs arbitrary: s) (simp_all add: add.assoc)

lemma fold_sq_Num:
  "fold (\<lambda>r v. jadd v (jpow2 (jsub r (Num m)))) (map Num xs) (Num s)
   = Num (s + (\<Sum>x\<leftarrow>xs. (x - m)\<^sup>2))"
  by (induction xs arbitrary: s) (simp_all add: add.assoc jpow2_def jsub_def power2_eq_square)

lemma meanDaily_Num:
  "xs \<noteq> [] \<Longrightarrow> meanDaily (map Num xs) = Num (sum_list xs / real (length xs))"
  by (simp add: meanDaily_def fold_add_Num)

lemma statsVariance_Num:
  "xs \<noteq> [] \<Longrightarrow> statsVariance (map Num xs)
     = Num ((\<Sum>x\<leftarrow>xs. (x - sum_list xs / real (length xs))\<^sup>2) / real (length xs))"
  by (simp add: statsVariance_def meanDaily_Num fold_sq_Num)






section \<open>Sharpe ratio and degenerate series\<close>

lemma jdiv_jmul_100: "jdiv (jmul x (Num 100)) (Num 100) = x"
  by (cases x) simp_all

lemma jeq_jmul_100: "jeq (jmul x (Num 100)) (Num 0) = jeq x (Num 0)"
  by (cases x) simp_all

lemma jeq_jmul_sqrt252: "jeq (jmul x (jsqrt (Num 252))) (Num 0) = jeq x (Num 0)"
  by (cases x) simp_all

lemma vol_zero3: "statsVolatility [Num 0, Num 0, Num 0] = Num 0"
  by (simp add: statsVolatility_def statsVariance_def meanDaily_def jpow2_def jsub_def)

lemma dailyVol_zero3: "dailyVol [Num 0, Num 0, Num 0] = Num 0"
  by (simp add: dailyVol_def variance_def meanReturn_def cumulativeReturn_def jpow2_def jsub_def)

lemma meanReturn_Num:
  "xs \<noteq> [] \<Longrightarrow> meanReturn (map Num xs) = Num (sum_list xs / real (length xs))"
  by (simp add: meanReturn_def cumulativeReturn_def fold_add_Num)

lemma variance_Num:
  "xs \<noteq> [] \<Longrightarrow> variance (map Num xs)
     = Num ((\<Sum>x\<leftarrow>xs. (x - sum_list xs / real (length xs))\<^sup>2) / real (length xs))"
  by (simp add: variance_def meanReturn_Num fold_sq_Num)

lemma variance_nonneg:
  "0 \<le> (\<Sum>x\<leftarrow>xs. (x - m)\<^sup>2) / real (length (xs :: real list))"
  by (intro divide_nonneg_nonneg sum_list_nonneg) auto

text \<open>
  Claim C8. For a non-empty series of finite returns with mean \<open>m\<close> and variance
  \<open>v\<close>, the annualised return is \<open>m * 252\<close>, the annualised volatility is
  \<open>sqrt v * sqrt 252\<close>, and the Sharpe ratio is their quotient, or exactly \<open>0\<close>
  when the volatility is \<open>0\<close>; this holds for \<open>renderPortfolioStats\<close> and for
  \<open>setupPortfolioAnalytics\<close> (which shows the volatility in per cent). For the
  series \<open>[0, 0, 0]\<close> the Sharpe ratio is \<open>0\<close>. For every series, finite or not,
  the ratio is \<open>0\<close> when the daily volatility compares equal to \<open>0\<close> and the
  quotient otherwise.
\<close>

theorem sharpe_is_return_over_volatility:
  assumes "xs \<noteq> []"
  shows "(let m = sum_list xs / real (length xs);
              v = (\<Sum>x\<leftarrow>xs. (x - m)\<^sup>2) / real (length xs)
          in annualisedReturn (map Num xs) = Num (m * 252)
           \<and> annualisedVol (map Num xs) = Num (sqrt v * sqrt 252)
           \<and> sharpe (map Num xs) = Num (if v = 0 then 0 else (m * 252) / (sqrt v * sqrt 252))
           \<and> volatility (map Num xs) = Num (sqrt v * sqrt 252 * 100)
           \<and> sharpeRatio (map Num xs) = Num (if v = 0 then 0 else (m * 252) / (sqrt v * sqrt 252)))
       \<and> sharpe (map Num [0, 0, 0]) = Num 0
       \<and> sharpeRatio (map Num [0, 0, 0]) = Num 0
       \<and> sharpe rs = (if jeq (statsVolatility rs) (Num 0) then Num 0
                      else jdiv (annualisedReturn rs) (annualisedVol rs))
       \<and> sharpeRatio rs = (if jeq (dailyVol rs) (Num 0) then Num 0
                      else jdiv (jmul (meanReturn rs) (Num 252)) (jmul (dailyVol rs) (jsqrt (Num 252))))"
proof -
  define m where "m = sum_list xs / real (length xs)"
  define v where "v = (\<Sum>x\<leftarrow>xs. (x - m)\<^sup>2) / real (length xs)"
  have v0: "0 \<le> v" unfolding v_def by (rule variance_nonneg)
  then have nneg: "(v < 0) = False" by simp
  have ar: "annualisedReturn (map Num xs) = Num (m * 252)"
    using assms by (simp add: annualisedReturn_def meanDaily_Num m_def)
  have sv: "statsVolatility (map Num xs) = Num (sqrt v)"
    using assms by (simp add: statsVolatility_def statsVariance_Num m_def v_def nneg[unfolded v_def m_def])
  have av: "annualisedVol (map Num xs) = Num (sqrt v * sqrt 252)"
    by (simp add: annualisedVol_def sv)
  have sh: "sharpe (map Num xs) = Num (if v = 0 then 0 else (m * 252) / (sqrt v * sqrt 252))"
    by (simp add: sharpe_def av ar)
  have mr: "meanReturn (map Num xs) = Num m"
    using assms by (simp add: meanReturn_Num m_def)
  have dv: "dailyVol (map Num xs) = Num (sqrt v)"
    using assms by (simp add: dailyVol_def variance_Num m_def v_def nneg[unfolded v_def m_def])
  have vo: "volatility (map Num xs) = Num (sqrt v * sqrt 252 * 100)"
    by (simp add: volatility_def dv)
  have sr: "sharpeRatio (map Num xs) = Num (if v = 0 then 0 else (m * 252) / (sqrt v * sqrt 252))"
    by (simp add: sharpeRatio_def vo mr)
  have g1: "sharpe rs = (if jeq (statsVolatility rs) (Num 0) then Num 0
                      else jdiv (annualisedReturn rs) (annualisedVol rs))" for rs
    unfolding sharpe_def annualisedVol_def jeq_jmul_sqrt252 by simp
  have g2: "sharpeRatio rs = (if jeq (dailyVol rs) (Num 0) then Num 0
                      else jdiv (jmul (meanReturn rs) (Num 252)) (jmul (dailyVol rs) (jsqrt (Num 252))))" for rs
    unfolding sharpeRatio_def volatility_def jdiv_jmul_100 jeq_jmul_100 jeq_jmul_sqrt252 by (rule refl)
  have z1: "sharpe (map Num [0, 0, 0]) = Num 0"
    using vol_zero3 by (simp add: g1)
  have z2: "sharpeRatio (map Num [0, 0, 0]) = Num 0"
    using dailyVol_zero3 by (simp add: g2)
  show ?thesis
    unfolding Let_def m_def[symmetric] v_def[symmetric]
    using ar av sh vo sr z1 z2 g1[of rs] g2[of rs] by blast
qed

theorem sharpe_is_return_over_volatility_witness:
  "annualisedReturn (map Num [1, 3]) = Num 504
   \<and> annualisedVol (map Num [1, 3]) = Num (sqrt 252)
   \<and> sharpe (map Num [1, 3]) = Num (504 / sqrt 252)
   \<and> volatility (map Num [1, 3]) = Num (sqrt 252 * 100)
   \<and> sharpeRatio (map Num [1, 3]) = Num (504 / sqrt 252)"
proof -
  have ne: "[1, 3 :: real] \<noteq> []" by simp
  note t = sharpe_is_return_over_volatility[OF ne, of "[]", THEN conjunct1]
  show ?thesis using t by (simp add: Let_def)
qed









section \<open>Rebasing\<close>

text \<open>The base is the first value that is not \<open>null\<close>; a series of \<open>null\<close> only
  stays as it is.\<close>

lemma findIndex_leading_nulls:
  "findIndex (\<lambda>v. v \<noteq> None) (replicate k None @ Some b # vs) = int k"
  by (induction k) (simp_all add: Let_def)

lemma findIndex_all_null: "findIndex (\<lambda>v. v \<noteq> None) (replicate k (None :: jsnum option)) = - 1"
  by (induction k) (simp_all add: Let_def)

lemma normalize_first_value:
  "normalize (replicate k None @ Some b # vs)
   = map (\<lambda>v. case v of Some x \<Rightarrow> Some (jmul (jdiv x b) (Num 100)) | None \<Rightarrow> None)
         (replicate k None @ Some b # vs)"
proof -
  have i: "findIndex (\<lambda>v. v \<noteq> None) (replicate k None @ Some b # vs) = int k"
    by (rule findIndex_leading_nulls)
  have n: "(replicate k None @ Some b # vs) ! k = Some b"
    by (simp add: nth_append)
  show ?thesis
    unfolding normalize_def Let_def i by (simp add: n)
qed

lemma normalize_all_null: "normalize (replicate k None) = replicate k None"
proof -
  have i: "findIndex (\<lambda>v. v \<noteq> None) (replicate k (None :: jsnum option)) = - 1"
    by (rule findIndex_all_null)
  show ?thesis
    unfolding normalize_def Let_def i by (simp add: map_replicate_const)
qed

text \<open>
  Claim C3. \<open>normalize\<close> divides by the first value that is not \<open>null\<close> and
  multiplies by 100, so \<open>[10, 20, 30]\<close> becomes \<open>[100, 200, 300]\<close>. A first value of
  zero is used as the base all the same: \<open>[0, 5, 10]\<close> becomes
  \<open>[NaN, Infinity, Infinity]\<close>, in \<open>normalize\<close> and in the rebasing of
  \<open>renderCryptoOverview\<close>.
\<close>

theorem normalize_zero_base:
  "normalize [Some (Num 0), Some (Num 5), Some (Num 10)] = [Some NaN, Some PInf, Some PInf]
   \<and> normalize [Some (Num 10), Some (Num 20), Some (Num 30)] = [Some (Num 100), Some (Num 200), Some (Num 300)]
   \<and> rebaseFirst [Num 0, Num 5, Num 10] = [NaN, PInf, PInf]"
  by (simp add: normalize_def rebaseFirst_def numAt_def)

section \<open>Cache round trip\<close>

lemma jsonText_serializable: "serializable v \<Longrightarrow> jsonText v = v"
proof (induction v)
  case (JArr xs)
  have "map (\<lambda>x. if x = JUndefined then JNull else jsonText x) xs = map (\<lambda>x. x) xs"
  proof (rule map_cong[OF refl])
    fix x assume x: "x \<in> set xs"
    then have "serializable x" using JArr.prems by simp
    moreover from this have "x \<noteq> JUndefined" by auto
    ultimately show "(if x = JUndefined then JNull else jsonText x) = x"
      using JArr.IH[OF x] by simp
  qed
  then show ?case by simp
next
  case (JObj ps)
  have f: "filter (\<lambda>p. snd p \<noteq> JUndefined) ps = ps"
  proof (rule filter_True)
    show "\<forall>p \<in> set ps. snd p \<noteq> JUndefined"
      using JObj.prems by auto
  qed
  have "map (\<lambda>p. (fst p, jsonText (snd p))) ps = map (\<lambda>p. p) ps"
  proof (rule map_cong[OF refl])
    fix p assume p: "p \<in> set ps"
    then have "serializable (snd p)" using JObj.prems by simp
    moreover have "snd p \<in> Basic_BNFs.snds p" by (cases p) simp
    ultimately have "jsonText (snd p) = snd p" using JObj.IH[OF p] by simp
    then show "(fst p, jsonText (snd p)) = p" by (cases p) simp
  qed
  then show ?case by (simp add: f)
qed simp_all

text \<open>
  Claim C9. For every key, every time stamp and every payload that JSON represents as
  it is, \<open>loadFromCache\<close> after \<open>saveToCache\<close> returns the payload, provided the
  store is enabled and accepts the write.
\<close>

theorem cache_round_trip:
  assumes "serializable data"
    and "enabled st"
    and "accepts st (cacheKey key) (JsonText (JObj [(''timestamp'', JNum (Num now)), (''data'', data)]))"
  shows "loadFromCache (saveToCache st now key data) key = data"
proof -
  have "data \<noteq> JUndefined" using assms(1) by auto
  then show ?thesis
    using assms
    by (simp add: saveToCache_def loadFromCache_def jsonText_serializable getp_def field_def Let_def)
qed

theorem cache_round_trip_witness:
  "loadFromCache
     (saveToCache \<lparr>enabled = True, accepts = (\<lambda>k t. True), items = Map.empty\<rparr> 1700000000000
        ''oilPriceSeries'' (seriesObj [JStr ''2024-01-02''] [Num 71.5]))
     ''oilPriceSeries''
   = seriesObj [JStr ''2024-01-02''] [Num 71.5]"
  using cache_round_trip[of "seriesObj [JStr ''2024-01-02''] [Num 71.5]"
      "\<lparr>enabled = True, accepts = (\<lambda>k t. True), items = Map.empty\<rparr>" "''oilPriceSeries''" 1700000000000]
  by (simp add: seriesObj_def)

text \<open>A payload outside that class does not come back as it was: \<open>NaN\<close> is stored as
  \<open>null\<close>.\<close>

lemma cache_drops_nan:
  "loadFromCache
     (saveToCache \<lparr>enabled = True, accepts = (\<lambda>k t. True), items = Map.empty\<rparr> 0
        ''k'' (seriesObj [JStr ''a''] [NaN]))
     ''k''
   = JObj [(''labels'', JArr [JStr ''a'']), (''values'', JArr [JNull])]"
  by (simp add: saveToCache_def loadFromCache_def getp_def field_def seriesObj_def)

section \<open>Validation in the provider clients\<close>

lemma alpacaExample_series:
  "alpacaSeries exampleEngine alpacaExample
   = Some (seriesObj [JStr ''2024-01-02'', JStr ''2024-01-03''] [Num 472.5, Num 468])"
  by (simp add: alpacaSeries_def alpacaBars_def alpacaExample_def field_def barLabel_def barClose_def)

lemma mapOpt_length: "mapOpt f xs = Some ys \<Longrightarrow> length ys = length xs"
  by (induction xs arbitrary: ys) (auto split: option.splits)

lemma alpacaSeries_Some:
  assumes "alpacaSeries E json = Some s"
  shows "\<exists>bars ls vs. alpacaBars json = Some (JArr bars) \<and> bars \<noteq> []
           \<and> mapOpt barLabel bars = Some ls \<and> mapOpt (barClose E) bars = Some vs
           \<and> list_all (\<lambda>v. \<not> isNaN v) vs \<and> s = seriesObj ls vs"
  using assms
  by (auto simp: alpacaSeries_def split: option.splits jsval.splits if_splits)

lemma alphaVantageSeries_Some:
  assumes "alphaVantageSeries E json = Some s"
  shows "\<exists>vs. mapOpt (\<lambda>date. if nullish (field (field json ''Time Series (Daily)'') date) then None
                          else Some (parseFloat E (field (field (field json ''Time Series (Daily)'') date) ''4. close'')))
                   (lastDates (field json ''Time Series (Daily)'')) = Some vs
           \<and> list_all (\<lambda>v. \<not> isNaN v) vs
           \<and> s = seriesObj (map JStr (lastDates (field json ''Time Series (Daily)''))) vs"
  using assms
  by (auto simp: alphaVantageSeries_def Let_def split: option.splits if_splits)


lemma alphaExample_series:
  "alphaVantageSeries exampleEngine alphaExample = Some (seriesObj [JStr ''2024-01-02''] [Num 472.5])"
  by (simp add: alphaVantageSeries_def alphaExample_def field_def lastDates_def)

lemma mapOpt_member:
  "mapOpt f xs = Some ys \<Longrightarrow> x \<in> set xs \<Longrightarrow> \<exists>y. f x = Some y \<and> y \<in> set ys"
  by (induction xs arbitrary: ys) (auto split: option.splits)

lemma mapOpt_map:
  assumes "mapOpt f xs = Some ys" and "\<And>x y. f x = Some y \<Longrightarrow> y = g x"
  shows "ys = map g xs"
  using assms(1)
proof (induction xs arbitrary: ys)
  case Nil
  then show ?case by simp
next
  case (Cons x xs)
  then show ?case using assms(2) by (auto split: option.splits)
qed

lemma lastDates_length: "length (lastDates series) \<le> 30"
  by (simp add: lastDates_def Let_def)

lemma alpacaSeries_nan:
  assumes "alpacaBars json = Some (JArr bars)" and "bar \<in> set bars" and "barClose E bar = Some NaN"
  shows "alpacaSeries E json = None"
proof (cases "alpacaSeries E json")
  case None
  then show ?thesis .
next
  case (Some s)
  then obtain bars' ls vs where b: "alpacaBars json = Some (JArr bars')"
      and v: "mapOpt (barClose E) bars' = Some vs" and n: "list_all (\<lambda>v. \<not> isNaN v) vs"
    using alpacaSeries_Some by blast
  have "bars' = bars" using b assms(1) by simp
  then have "NaN \<in> set vs" using mapOpt_member[OF v, of bar] assms(2,3) by auto
  then show ?thesis using n by (auto simp: list_all_iff)
qed

lemma alphaVantageSeries_nan:
  assumes "date \<in> set (lastDates (field json ''Time Series (Daily)''))"
    and "parseFloat E (field (field (field json ''Time Series (Daily)'') date) ''4. close'') = NaN"
  shows "alphaVantageSeries E json = None"
proof (cases "alphaVantageSeries E json")
  case None
  then show ?thesis .
next
  case (Some s)
  then obtain vs where m: "mapOpt (\<lambda>date. if nullish (field (field json ''Time Series (Daily)'') date) then None
                          else Some (parseFloat E (field (field (field json ''Time Series (Daily)'') date) ''4. close'')))
                   (lastDates (field json ''Time Series (Daily)'')) = Some vs"
      and n: "list_all (\<lambda>v. \<not> isNaN v) vs"
    using alphaVantageSeries_Some by blast
  have "NaN \<in> set vs" using mapOpt_member[OF m assms(1)] assms(2) by (auto split: if_splits)
  then show ?thesis using n by (auto simp: list_all_iff)
qed

text \<open>
  Claim C5, as amended. The Alpaca client reads the close of every bar of the
  response, the AlphaVantage client the close of the last thirty dates of the
  response in sorted order (earlier dates are not read). When either client returns a
  series, the series has exactly one value for each bar, or for each of those dates,
  and no value is \<open>NaN\<close>; if any value read is \<open>NaN\<close>, the fetch from that
  provider fails as a whole.
\<close>

theorem provider_rejects_nan:
  "(alpacaSeries E json = Some s \<longrightarrow>
      (\<exists>bars ls vs. alpacaBars json = Some (JArr bars) \<and> mapOpt barLabel bars = Some ls
          \<and> mapOpt (barClose E) bars = Some vs
          \<and> s = seriesObj ls vs \<and> length ls = length bars \<and> length vs = length bars
          \<and> list_all (\<lambda>v. \<not> isNaN v) vs))
   \<and> (alpacaBars json = Some (JArr bars) \<and> bar \<in> set bars \<and> barClose E bar = Some NaN \<longrightarrow>
      alpacaSeries E json = None)
   \<and> (alphaVantageSeries E json' = Some s' \<longrightarrow>
      (\<exists>vs. s' = seriesObj (map JStr (lastDates (field json' ''Time Series (Daily)''))) vs
          \<and> vs = map (\<lambda>date. parseFloat E (field (field (field json' ''Time Series (Daily)'') date) ''4. close''))
                     (lastDates (field json' ''Time Series (Daily)''))
          \<and> list_all (\<lambda>v. \<not> isNaN v) vs))
   \<and> (date \<in> set (lastDates (field json' ''Time Series (Daily)''))
        \<and> parseFloat E (field (field (field json' ''Time Series (Daily)'') date) ''4. close'') = NaN \<longrightarrow>
      alphaVantageSeries E json' = None)
   \<and> lastDates (field json' ''Time Series (Daily)'')
        = (let ks = sort (map fst (ownEntries (field json' ''Time Series (Daily)'')))
           in drop (length ks - 30) ks)
   \<and> length (lastDates (field json' ''Time Series (Daily)'')) \<le> 30"
proof (intro conjI impI)
  assume "alpacaSeries E json = Some s"
  then obtain bars ls vs where b: "alpacaBars json = Some (JArr bars)"
      and l: "mapOpt barLabel bars = Some ls" and v: "mapOpt (barClose E) bars = Some vs"
      and n: "list_all (\<lambda>v. \<not> isNaN v) vs" and s: "s = seriesObj ls vs"
    using alpacaSeries_Some by blast
  have "length ls = length bars" "length vs = length bars"
    using l v by (simp_all add: mapOpt_length)
  with b l v n s show "\<exists>bars ls vs. alpacaBars json = Some (JArr bars) \<and> mapOpt barLabel bars = Some ls
          \<and> mapOpt (barClose E) bars = Some vs
          \<and> s = seriesObj ls vs \<and> length ls = length bars \<and> length vs = length bars
          \<and> list_all (\<lambda>v. \<not> isNaN v) vs"
    by blast
next
  assume "alpacaBars json = Some (JArr bars) \<and> bar \<in> set bars \<and> barClose E bar = Some NaN"
  then show "alpacaSeries E json = None" using alpacaSeries_nan by blast
next
  assume "alphaVantageSeries E json' = Some s'"
  then obtain vs where m: "mapOpt (\<lambda>date. if nullish (field (field json' ''Time Series (Daily)'') date) then None
                          else Some (parseFloat E (field (field (field json' ''Time Series (Daily)'') date) ''4. close'')))
                   (lastDates (field json' ''Time Series (Daily)'')) = Some vs"
      and n: "list_all (\<lambda>v. \<not> isNaN v) vs"
      and s: "s' = seriesObj (map JStr (lastDates (field json' ''Time Series (Daily)''))) vs"
    using alphaVantageSeries_Some by blast
  have "vs = map (\<lambda>date. parseFloat E (field (field (field json' ''Time Series (Daily)'') date) ''4. close''))
                     (lastDates (field json' ''Time Series (Daily)''))"
    using m by (rule mapOpt_map) (auto split: if_splits)
  with n s show "\<exists>vs. s' = seriesObj (map JStr (lastDates (field json' ''Time Series (Daily)''))) vs
          \<and> vs = map (\<lambda>date. parseFloat E (field (field (field json' ''Time Series (Daily)'') date) ''4. close''))
                     (lastDates (field json' ''Time Series (Daily)''))
          \<and> list_all (\<lambda>v. \<not> isNaN v) vs"
    by blast
next
  assume "date \<in> set (lastDates (field json' ''Time Series (Daily)''))
        \<and> parseFloat E (field (field (field json' ''Time Series (Daily)'') date) ''4. close'') = NaN"
  then show "alphaVantageSeries E json' = None" using alphaVantageSeries_nan by blast
next
  show "lastDates (field json' ''Time Series (Daily)'')
        = (let ks = sort (map fst (ownEntries (field json' ''Time Series (Daily)'')))
           in drop (length ks - 30) ks)"
    by (simp add: lastDates_def)
  show "length (lastDates (field json' ''Time Series (Daily)'')) \<le> 30"
    by (rule lastDates_length)
qed

theorem provider_rejects_nan_witness:
  "(\<exists>bars ls vs. alpacaBars alpacaExample = Some (JArr bars) \<and> mapOpt barLabel bars = Some ls
          \<and> mapOpt (barClose exampleEngine) bars = Some vs
          \<and> seriesObj [JStr ''2024-01-02'', JStr ''2024-01-03''] [Num 472.5, Num 468] = seriesObj ls vs
          \<and> length ls = length bars \<and> length vs = length bars
          \<and> list_all (\<lambda>v. \<not> isNaN v) vs)
   \<and> alpacaSeries exampleEngine nanBars = None
   \<and> (\<exists>vs. seriesObj [JStr ''2024-01-02''] [Num 472.5]
             = seriesObj (map JStr (lastDates (field alphaExample ''Time Series (Daily)''))) vs
          \<and> vs = map (\<lambda>date. parseFloat exampleEngine
                                 (field (field (field alphaExample ''Time Series (Daily)'') date) ''4. close''))
                     (lastDates (field alphaExample ''Time Series (Daily)''))
          \<and> list_all (\<lambda>v. \<not> isNaN v) vs)
   \<and> alphaVantageSeries exampleEngine nanDaily = None"
proof -
  let ?bar = "JObj [(''t'', JStr ''2024-01-03T05:00:00Z''), (''c'', JNull)]"
  let ?bars = "[JObj [(''t'', JStr ''2024-01-02T05:00:00Z''), (''c'', JNum (Num 472.5))], ?bar]"
  have h2: "alpacaBars nanBars = Some (JArr ?bars) \<and> ?bar \<in> set ?bars
      \<and> barClose exampleEngine ?bar = Some NaN"
    by (simp add: alpacaBars_def nanBars_def field_def barClose_def)
  have h4: "''2024-01-02'' \<in> set (lastDates (field nanDaily ''Time Series (Daily)''))
      \<and> parseFloat exampleEngine
           (field (field (field nanDaily ''Time Series (Daily)'') ''2024-01-02'') ''4. close'') = NaN"
    by (simp add: nanDaily_def field_def lastDates_def)
  note t1 = provider_rejects_nan[of exampleEngine alpacaExample
      "seriesObj [JStr ''2024-01-02'', JStr ''2024-01-03''] [Num 472.5, Num 468]"
      _ _ alphaExample "seriesObj [JStr ''2024-01-02''] [Num 472.5]"]
  note t2 = provider_rejects_nan[of exampleEngine nanBars _ ?bars ?bar nanDaily _ "''2024-01-02''"]
  show ?thesis
    using t1 t2 alpacaExample_series alphaExample_series h2 h4
    by blast
qed

text \<open>A date before the last thirty is not read: its close may be \<open>null\<close> and the
  fetch succeeds with thirty values.\<close>

lemma alphaVantage_reads_last_thirty:
  "alphaVantageSeries exampleEngine longDaily
   = Some (seriesObj (map (\<lambda>i. JStr (''2024-02-'' @ showNat (10 + i))) [0..<30])
                     (replicate 30 (Num 1)))"
  by code_simp

text \<open>
  Claim C5 as stated fails: the check is \<open>!isNaN(v)\<close>, which \<open>Infinity\<close> passes. A
  close of \<open>1e999\<close> in the response reads as \<open>Infinity\<close>, and the client returns a
  series that holds it.
\<close>

theorem provider_accepts_infinity_counterexample:
  "alpacaSeries exampleEngine
     (JObj [(''bars'', JArr [JObj [(''t'', JStr ''2024-01-02T05:00:00Z''), (''c'', JNum PInf)]])])
   = Some (seriesObj [JStr ''2024-01-02''] [PInf])
   \<and> \<not> isFinite PInf"
  by (simp add: alpacaSeries_def alpacaBars_def field_def barLabel_def barClose_def)

text \<open>\<open>fetchTwelveSeries\<close> has no check at all: a close of \<open>null\<close> comes back as
  \<open>NaN\<close> inside the series.\<close>

lemma twelveSeries_keeps_nan:
  "twelveSeries E (JObj [(''values'', JArr [JObj [(''datetime'', JStr ''2024-01-02''), (''close'', JNull)]])])
   = Some (seriesObj [JStr ''2024-01-02''] [NaN])"
  by (simp add: twelveSeries_def field_def getp_def)


section \<open>The fallback chain\<close>

lemma fetchEquity_first:
  assumes "Option.bind (net (AlpacaBars symbol)) (alpacaSeries E) = Some s"
  shows "fetchEquitySeries E net symbol w = (s, w\<lparr>requests := requests w @ [AlpacaBars symbol]\<rparr>)"
  using assms
  by (auto simp: fetchEquitySeries_def fetchFromAlpaca_def httpGet_def split: option.splits Option.bind_splits)

lemma fetchEquity_second:
  assumes "Option.bind (net (AlpacaBars symbol)) (alpacaSeries E) = None"
    and "Option.bind (net (AlphaVantageDaily symbol)) (alphaVantageSeries E) = Some s"
  shows "fetchEquitySeries E net symbol w
       = (s, w\<lparr>requests := requests w @ [AlpacaBars symbol, AlphaVantageDaily symbol]\<rparr>)"
  using assms
  by (auto simp: fetchEquitySeries_def fetchFromAlpaca_def httpGet_def split: option.splits Option.bind_splits)

lemma fetchEquity_none:
  assumes "Option.bind (net (AlpacaBars symbol)) (alpacaSeries E) = None"
    and "Option.bind (net (AlphaVantageDaily symbol)) (alphaVantageSeries E) = None"
  shows "fetchEquitySeries E net symbol w
       = (sample symbol, w\<lparr>requests := requests w @ [AlpacaBars symbol, AlphaVantageDaily symbol]\<rparr>)"
  using assms
  by (auto simp: fetchEquitySeries_def fetchFromAlpaca_def httpGet_def split: option.splits Option.bind_splits)

lemma fetchOil_live:
  assumes "Option.bind (net (oilRequest E now)) (oilSeries E) = Some s"
  shows "fetchOilPriceSeries E net rnd now w
       = (s, w\<lparr>requests := requests w @ [oilRequest E now],
                store := saveToCache (store w) now ''oilPriceSeries'' s\<rparr>)"
  using assms
  by (auto simp: fetchOilPriceSeries_def httpGet_def split: option.splits Option.bind_splits)

lemma fetchOil_failed:
  assumes "Option.bind (net (oilRequest E now)) (oilSeries E) = None"
  shows "fetchOilPriceSeries E net rnd now w
       = (if truthy (loadFromCache (store w) ''oilPriceSeries'')
          then loadFromCache (store w) ''oilPriceSeries'' else fallback E rnd now,
          w\<lparr>requests := requests w @ [oilRequest E now]\<rparr>)"
  using assms
  by (auto simp: fetchOilPriceSeries_def httpGet_def Let_def split: option.splits Option.bind_splits)

lemma load_after_save:
  assumes "enabled st"
    and "accepts st (cacheKey key) (JsonText (jsonText (JObj [(''timestamp'', JNum (Num now)), (''data'', d)])))"
    and "d \<noteq> JUndefined"
  shows "loadFromCache (saveToCache st now key d) key = jsonText d"
  using assms
  by (simp add: saveToCache_def loadFromCache_def getp_def field_def Let_def)

lemma sample_shape:
  "\<exists>ls vs. sample symbol = seriesObj ls vs \<and> length ls = 30 \<and> length vs = 30
      \<and> list_all (\<lambda>v. isFinite v \<and> jgt v (Num 0)) vs"
proof -
  let ?base = "if symbol = ''TSLA'' then 250 else 450 :: real"
  let ?ls = "map (\<lambda>i. JStr (''Day '' @ showNat (i + 1))) [0..<30]"
  let ?vs = "map (\<lambda>i. Num (?base + sin (real i / 5) * 8 + real i * 0.5)) [0..<30]"
  have "0 < ?base + sin (real i / 5) * 8 + real i * 0.5" for i :: nat
  proof -
    have "- 1 \<le> sin (real i / 5)" by (rule sin_ge_minus_one)
    moreover have "0 \<le> real i" by simp
    moreover have "250 \<le> ?base" by simp
    ultimately show ?thesis by linarith
  qed
  then have "list_all (\<lambda>v. isFinite v \<and> jgt v (Num 0)) ?vs"
    by (simp add: list_all_iff del: upt_Suc)
  moreover have "sample symbol = seriesObj ?ls ?vs" by (simp add: sample_def Let_def del: upt_Suc)
  moreover have "length ?ls = 30" "length ?vs = 30" by simp_all
  ultimately show ?thesis by blast
qed

lemma fallback_shape:
  assumes "\<forall>k. 0 \<le> rnd k \<and> rnd k < 1"
  shows "\<exists>ls vs. fallback E rnd now = seriesObj ls vs \<and> length ls = 365 \<and> length vs = 365
      \<and> list_all (\<lambda>v. isFinite v \<and> jgt v (Num 0)) vs"
proof -
  let ?ls = "map (\<lambda>k. JStr (take 10 (toISOString E (now - real (364 - k) * dayMs)))) [0..<365]"
  let ?vs = "map (\<lambda>k. Num (60 + (365 - real (364 - k)) * 0.02 + (rnd k - 0.5) * 2)) [0..<365]"
  have "0 < 60 + (365 - real (364 - k)) * 0.02 + (rnd k - 0.5) * 2" if "k < 365" for k
  proof -
    define x where "x = real (364 - k)"
    have x: "x \<le> 364" unfolding x_def by simp
    have r: "0 \<le> rnd k" using assms by simp
    have "0 < 60 + (365 - x) * 0.02 + (rnd k - 0.5) * 2"
      using x r by (simp add: algebra_simps)
    then show ?thesis unfolding x_def .
  qed
  then have "list_all (\<lambda>v. isFinite v \<and> jgt v (Num 0)) ?vs"
    by (simp add: list_all_iff del: upt_Suc)
  moreover have "fallback E rnd now = seriesObj ?ls ?vs" by (simp add: fallback_def del: upt_Suc)
  moreover have "length ?ls = 365" "length ?vs = 365" by simp_all
  ultimately show ?thesis by blast
qed


lemma oilSeries_obj: "oilSeries E json = Some s \<Longrightarrow> \<exists>ls vs. s = seriesObj ls vs"
  by (auto simp: oilSeries_def split: jsval.splits if_splits option.splits)

lemma oilExample_series:
  "oilSeries exampleEngine oilExample = Some (seriesObj [JStr ''2024-01-02''] [Num 71.5])"
  by (simp add: oilSeries_def oilData_def oilExample_def field_def exampleEngine_def)

text \<open>
  Claim C1, as amended. \<open>fetchEquitySeries\<close> asks Alpaca first; if Alpaca succeeds its
  series is returned and AlphaVantage is not asked; if Alpaca fails and AlphaVantage
  succeeds, the series of AlphaVantage is returned after the two requests in that
  order. In both cases the store is left as it was. \<open>fetchOilPriceSeries\<close> has one
  provider; when it succeeds the series is returned and saved under the key
  \<open>oilPriceSeries\<close>, so that, if the store is enabled and accepts the write, the cache
  then holds the series as JSON represents it.
\<close>

theorem first_provider_to_succeed_wins:
  "(Option.bind (net1 (AlpacaBars symbol)) (alpacaSeries E) = Some s1 \<longrightarrow>
      fetchEquitySeries E net1 symbol w
        = (s1, w\<lparr>requests := requests w @ [AlpacaBars symbol]\<rparr>))
   \<and> (Option.bind (net2 (AlpacaBars symbol)) (alpacaSeries E) = None
        \<and> Option.bind (net2 (AlphaVantageDaily symbol)) (alphaVantageSeries E) = Some s2 \<longrightarrow>
      fetchEquitySeries E net2 symbol w
        = (s2, w\<lparr>requests := requests w @ [AlpacaBars symbol, AlphaVantageDaily symbol]\<rparr>))
   \<and> (Option.bind (net3 (oilRequest E now)) (oilSeries E) = Some s3 \<longrightarrow>
      fetchOilPriceSeries E net3 rnd now w
        = (s3, w\<lparr>requests := requests w @ [oilRequest E now],
                 store := saveToCache (store w) now ''oilPriceSeries'' s3\<rparr>)
      \<and> (enabled (store w)
           \<and> accepts (store w) (cacheKey ''oilPriceSeries'')
                (JsonText (jsonText (JObj [(''timestamp'', JNum (Num now)), (''data'', s3)]))) \<longrightarrow>
          loadFromCache (store (snd (fetchOilPriceSeries E net3 rnd now w))) ''oilPriceSeries''
            = jsonText s3))"
proof (intro conjI impI)
  assume "Option.bind (net1 (AlpacaBars symbol)) (alpacaSeries E) = Some s1"
  then show "fetchEquitySeries E net1 symbol w
        = (s1, w\<lparr>requests := requests w @ [AlpacaBars symbol]\<rparr>)"
    by (rule fetchEquity_first)
next
  assume "Option.bind (net2 (AlpacaBars symbol)) (alpacaSeries E) = None
        \<and> Option.bind (net2 (AlphaVantageDaily symbol)) (alphaVantageSeries E) = Some s2"
  then show "fetchEquitySeries E net2 symbol w
        = (s2, w\<lparr>requests := requests w @ [AlpacaBars symbol, AlphaVantageDaily symbol]\<rparr>)"
    by (simp add: fetchEquity_second)
next
  assume a: "Option.bind (net3 (oilRequest E now)) (oilSeries E) = Some s3"
  then show "fetchOilPriceSeries E net3 rnd now w
        = (s3, w\<lparr>requests := requests w @ [oilRequest E now],
                 store := saveToCache (store w) now ''oilPriceSeries'' s3\<rparr>)"
    by (rule fetchOil_live)
next
  assume a: "Option.bind (net3 (oilRequest E now)) (oilSeries E) = Some s3"
    and b: "enabled (store w)
           \<and> accepts (store w) (cacheKey ''oilPriceSeries'')
                (JsonText (jsonText (JObj [(''timestamp'', JNum (Num now)), (''data'', s3)])))"
  obtain json where "oilSeries E json = Some s3"
    using a by (auto split: Option.bind_splits)
  then have u: "s3 \<noteq> JUndefined" using oilSeries_obj by (auto simp: seriesObj_def)
  have "loadFromCache (saveToCache (store w) now ''oilPriceSeries'' s3) ''oilPriceSeries'' = jsonText s3"
    using b u by (intro load_after_save) simp_all
  then show "loadFromCache (store (snd (fetchOilPriceSeries E net3 rnd now w))) ''oilPriceSeries''
            = jsonText s3"
    using fetchOil_live[of net3 E now s3 rnd w] a by simp
qed

theorem first_provider_to_succeed_wins_witness:
  "fetchEquitySeries exampleEngine alpacaOnly ''SPY'' emptyWorld
     = (seriesObj [JStr ''2024-01-02'', JStr ''2024-01-03''] [Num 472.5, Num 468],
        emptyWorld\<lparr>requests := requests emptyWorld @ [AlpacaBars ''SPY'']\<rparr>)
   \<and> fetchEquitySeries exampleEngine alphaOnly ''SPY'' emptyWorld
     = (seriesObj [JStr ''2024-01-02''] [Num 472.5],
        emptyWorld\<lparr>requests := requests emptyWorld @ [AlpacaBars ''SPY'', AlphaVantageDaily ''SPY'']\<rparr>)
   \<and> fetchOilPriceSeries exampleEngine oilOnly (\<lambda>k. 1 / 2) 0 emptyWorld
     = (seriesObj [JStr ''2024-01-02''] [Num 71.5],
        emptyWorld\<lparr>requests := requests emptyWorld @ [oilRequest exampleEngine 0],
                   store := saveToCache (store emptyWorld) 0 ''oilPriceSeries''
                              (seriesObj [JStr ''2024-01-02''] [Num 71.5])\<rparr>)
   \<and> loadFromCache (store (snd (fetchOilPriceSeries exampleEngine oilOnly (\<lambda>k. 1 / 2) 0 emptyWorld)))
        ''oilPriceSeries''
     = jsonText (seriesObj [JStr ''2024-01-02''] [Num 71.5])"
proof -
  have h1: "Option.bind (alpacaOnly (AlpacaBars ''SPY'')) (alpacaSeries exampleEngine)
      = Some (seriesObj [JStr ''2024-01-02'', JStr ''2024-01-03''] [Num 472.5, Num 468])"
    by (simp add: alpacaOnly_def alpacaExample_series)
  have h2: "Option.bind (alphaOnly (AlpacaBars ''SPY'')) (alpacaSeries exampleEngine) = None
      \<and> Option.bind (alphaOnly (AlphaVantageDaily ''SPY'')) (alphaVantageSeries exampleEngine)
          = Some (seriesObj [JStr ''2024-01-02''] [Num 472.5])"
    by (simp add: alphaOnly_def alphaExample_series)
  have h3: "Option.bind (oilOnly (oilRequest exampleEngine 0)) (oilSeries exampleEngine)
      = Some (seriesObj [JStr ''2024-01-02''] [Num 71.5])"
    by (simp add: oilOnly_def oilRequest_def oilExample_series)
  have h4: "enabled (store emptyWorld)
      \<and> accepts (store emptyWorld) (cacheKey ''oilPriceSeries'')
           (JsonText (jsonText (JObj [(''timestamp'', JNum (Num 0)),
                                      (''data'', seriesObj [JStr ''2024-01-02''] [Num 71.5])])))"
    by (simp add: emptyWorld_def)
  show ?thesis
    using first_provider_to_succeed_wins[of alpacaOnly "''SPY''" exampleEngine
        "seriesObj [JStr ''2024-01-02'', JStr ''2024-01-03''] [Num 472.5, Num 468]" emptyWorld
        alphaOnly "seriesObj [JStr ''2024-01-02''] [Num 472.5]"
        oilOnly 0 "seriesObj [JStr ''2024-01-02''] [Num 71.5]" "\<lambda>k. 1 / 2"]
      h1 h2 h3 h4
    by blast
qed

text \<open>
  Claim C1 as stated fails: after a successful fetch from Alpaca, \<open>fetchEquitySeries\<close>
  has written nothing to the cache.
\<close>

theorem equity_series_not_cached_counterexample:
  "fetchEquitySeries exampleEngine alpacaOnly ''SPY'' emptyWorld
     = (seriesObj [JStr ''2024-01-02'', JStr ''2024-01-03''] [Num 472.5, Num 468],
        emptyWorld\<lparr>requests := [AlpacaBars ''SPY'']\<rparr>)
   \<and> items (store (snd (fetchEquitySeries exampleEngine alpacaOnly ''SPY'' emptyWorld))) = Map.empty"
  by (simp add: fetchEquitySeries_def fetchFromAlpaca_def httpGet_def alpacaOnly_def
        alpacaExample_series emptyWorld_def)


text \<open>
  Claim C2, as amended. When both providers of \<open>fetchEquitySeries\<close> fail, the result is
  \<open>sample()\<close>, whatever the cache holds: thirty labels and thirty values, all finite
  and positive. When the provider of \<open>fetchOilPriceSeries\<close> fails, the result is the
  cached entry if \<open>loadFromCache\<close> returns a truthy value, and \<open>fallback()\<close>
  otherwise: 365 labels and 365 values, all finite and positive (for results of
  \<open>Math.random()\<close> in the interval from 0 to 1). Both functions are total: no
  outcome of the network or of the store makes them throw.
\<close>

theorem exhausted_chain_falls_back:
  "(Option.bind (net1 (AlpacaBars symbol)) (alpacaSeries E) = None
      \<and> Option.bind (net1 (AlphaVantageDaily symbol)) (alphaVantageSeries E) = None \<longrightarrow>
      fetchEquitySeries E net1 symbol w
        = (sample symbol, w\<lparr>requests := requests w @ [AlpacaBars symbol, AlphaVantageDaily symbol]\<rparr>))
   \<and> (\<exists>ls vs. sample symbol = seriesObj ls vs \<and> length ls = 30 \<and> length vs = 30
          \<and> list_all (\<lambda>v. isFinite v \<and> jgt v (Num 0)) vs)
   \<and> (Option.bind (net2 (oilRequest E now)) (oilSeries E) = None \<longrightarrow>
      fetchOilPriceSeries E net2 rnd now w
        = (if truthy (loadFromCache (store w) ''oilPriceSeries'')
           then loadFromCache (store w) ''oilPriceSeries'' else fallback E rnd now,
           w\<lparr>requests := requests w @ [oilRequest E now]\<rparr>))
   \<and> ((\<forall>k. 0 \<le> rnd k \<and> rnd k < 1) \<longrightarrow>
      (\<exists>ls vs. fallback E rnd now = seriesObj ls vs \<and> length ls = 365 \<and> length vs = 365
          \<and> list_all (\<lambda>v. isFinite v \<and> jgt v (Num 0)) vs))"
proof (intro conjI impI)
  assume "Option.bind (net1 (AlpacaBars symbol)) (alpacaSeries E) = None
      \<and> Option.bind (net1 (AlphaVantageDaily symbol)) (alphaVantageSeries E) = None"
  then show "fetchEquitySeries E net1 symbol w
        = (sample symbol, w\<lparr>requests := requests w @ [AlpacaBars symbol, AlphaVantageDaily symbol]\<rparr>)"
    by (simp add: fetchEquity_none)
next
  show "\<exists>ls vs. sample symbol = seriesObj ls vs \<and> length ls = 30 \<and> length vs = 30
          \<and> list_all (\<lambda>v. isFinite v \<and> jgt v (Num 0)) vs"
    by (rule sample_shape)
next
  assume "Option.bind (net2 (oilRequest E now)) (oilSeries E) = None"
  then show "fetchOilPriceSeries E net2 rnd now w
        = (if truthy (loadFromCache (store w) ''oilPriceSeries'')
           then loadFromCache (store w) ''oilPriceSeries'' else fallback E rnd now,
           w\<lparr>requests := requests w @ [oilRequest E now]\<rparr>)"
    by (rule fetchOil_failed)
next
  assume "\<forall>k. 0 \<le> rnd k \<and> rnd k < 1"
  then show "\<exists>ls vs. fallback E rnd now = seriesObj ls vs \<and> length ls = 365 \<and> length vs = 365
          \<and> list_all (\<lambda>v. isFinite v \<and> jgt v (Num 0)) vs"
    by (rule fallback_shape)
qed

theorem exhausted_chain_falls_back_witness:
  "fetchEquitySeries exampleEngine offline ''XYZ'' cachedWorld
     = (sample ''XYZ'',
        cachedWorld\<lparr>requests := requests cachedWorld @ [AlpacaBars ''XYZ'', AlphaVantageDaily ''XYZ'']\<rparr>)
   \<and> fetchOilPriceSeries exampleEngine offline (\<lambda>k. 1 / 2) 0 cachedWorld
     = (if truthy (loadFromCache (store cachedWorld) ''oilPriceSeries'')
        then loadFromCache (store cachedWorld) ''oilPriceSeries''
        else fallback exampleEngine (\<lambda>k. 1 / 2) 0,
        cachedWorld\<lparr>requests := requests cachedWorld @ [oilRequest exampleEngine 0]\<rparr>)
   \<and> (\<exists>ls vs. fallback exampleEngine (\<lambda>k. 1 / 2) 0 = seriesObj ls vs
          \<and> length ls = 365 \<and> length vs = 365
          \<and> list_all (\<lambda>v. isFinite v \<and> jgt v (Num 0)) vs)"
proof -
  have h1: "Option.bind (offline (AlpacaBars ''XYZ'')) (alpacaSeries exampleEngine) = None
      \<and> Option.bind (offline (AlphaVantageDaily ''XYZ'')) (alphaVantageSeries exampleEngine) = None"
    by (simp add: offline_def)
  have h2: "Option.bind (offline (oilRequest exampleEngine 0)) (oilSeries exampleEngine) = None"
    by (simp add: offline_def)
  have h3: "\<forall>k. (0::real) \<le> (\<lambda>k::nat. 1 / 2) k \<and> (\<lambda>k::nat. 1 / 2) k < (1::real)"
    by simp
  show ?thesis
    using exhausted_chain_falls_back[of offline "''XYZ''" exampleEngine cachedWorld offline 0 "\<lambda>k. 1 / 2"]
      h1 h2 h3
    by blast
qed

lemma cachedWorld_entry:
  "loadFromCache (store cachedWorld) ''equity:XYZ'' = seriesObj [JStr ''2024-01-02''] [Num 101]"
  by (simp add: cachedWorld_def emptyWorld_def saveToCache_def loadFromCache_def getp_def
        field_def seriesObj_def)

lemma sample_not_short: "sample symbol \<noteq> seriesObj [l] [v]"
proof
  assume a: "sample symbol = seriesObj [l] [v]"
  obtain ls vs where s: "sample symbol = seriesObj ls vs" and n: "length ls = 30"
    using sample_shape by blast
  have "ls = [l]" using a s by (simp add: seriesObj_def)
  then show False using n by simp
qed

text \<open>
  Claim C2 as stated fails: with both providers down and a series cached under
  \<open>equity:XYZ\<close>, \<open>fetchEquitySeries\<close> returns \<open>sample()\<close>, not the cached series.
\<close>

theorem equity_ignores_cache_counterexample:
  "fst (fetchEquitySeries exampleEngine offline ''XYZ'' cachedWorld) = sample ''XYZ''
   \<and> loadFromCache (store cachedWorld) ''equity:XYZ'' = seriesObj [JStr ''2024-01-02''] [Num 101]
   \<and> fst (fetchEquitySeries exampleEngine offline ''XYZ'' cachedWorld)
       \<noteq> loadFromCache (store cachedWorld) ''equity:XYZ''"
proof -
  have f: "fst (fetchEquitySeries exampleEngine offline ''XYZ'' cachedWorld) = sample ''XYZ''"
    by (simp add: fetchEquitySeries_def fetchFromAlpaca_def httpGet_def offline_def)
  show ?thesis
    unfolding f cachedWorld_entry using sample_not_short by simp
qed

section \<open>The correlation matrix of \<open>setupPortfolioAnalytics\<close>\<close>



text \<open>Without a guard on the denominator, a series of zero variance makes its row and
  its column \<open>NaN\<close>.\<close>

lemma correlationMatrix_zero_variance:
  "correlationMatrix [[Num 1, Num 1], [Num 0, Num 2]] = Some [[NaN, NaN], [NaN, Num 1]]"
  by (simp add: correlationMatrix_def cmCov_def cmStd_def cmMean_def numAt_def jsub_def jpow2_def
        upt_rec[of 0] upt_rec[of 1] upt_rec[of 2])

text \<open>The matrix that \<open>renderPortfolioCorrelation\<close> plots is \<open>corrMatrix\<close> of the
  returns of its datasets.\<close>

lemma renderPortfolioCorrelation_matrix:
  "renderPortfolioCorrelation datasets = Some M
   \<Longrightarrow> M = corrMatrix (map (\<lambda>(key, vals). toReturns vals) datasets)"
  by (simp add: renderPortfolioCorrelation_def split: if_splits)

section \<open>Symmetry and diagonal of the two correlation matrices\<close>












end
